theory Spec2Isabelle
  imports Complex_Main "HOL-Library.Word"
begin

unbundle bit_operations_syntax

section \<open>Carver: rendering lines of text over an image\<close>

text \<open>
  A shallow embedding of \<^verbatim>\<open>main.go\<close>. The functions of the Go library that it calls
  (packages \<^verbatim>\<open>image\<close>, \<^verbatim>\<open>fixed\<close>, \<^verbatim>\<open>freetype\<close>, \<^verbatim>\<open>fmt\<close>) are written out as the library
  defines them, as far as the bounds of images and the scanning of a number go; what the
  program reads from outside, and the rasterizer, are parameters.

  Go's \<^verbatim>\<open>int\<close> (64 bits) is modelled by \<^typ>\<open>int\<close>: it only ever holds pixel coordinates
  of images that fit in memory and lengths of lines and of the line list, none of which
  comes near \<open>2 ^ 63\<close>. The 26.6 fixed-point numbers of the rasterizer (\<^verbatim>\<open>fixed.Int26_6\<close>,
  a Go \<^verbatim>\<open>int32\<close>) can wrap around on long inputs and are modelled by \<^typ>\<open>32 word\<close>. A Go
  \<^verbatim>\<open>string\<close> is a sequence of bytes, as \<^typ>\<open>string\<close> is, and \<^verbatim>\<open>len\<close> counts these
  bytes.
\<close>

subsection \<open>Package \<^verbatim>\<open>image\<close>: points and rectangles\<close>

record Point =
  X :: int
  Y :: int

record Rectangle =
  Min_pt :: Point
  Max_pt :: Point

definition Pt :: "int \<Rightarrow> int \<Rightarrow> Point" where
  "Pt x y = \<lparr>X = x, Y = y\<rparr>"

text \<open>\<^verbatim>\<open>image.Rect\<close> swaps minimum and maximum where needed, so that the result is well-formed.\<close>

definition Rect :: "int \<Rightarrow> int \<Rightarrow> int \<Rightarrow> int \<Rightarrow> Rectangle" where
  "Rect x0 y0 x1 y1 =
     (let (x0, x1) = (if x0 > x1 then (x1, x0) else (x0, x1));
          (y0, y1) = (if y0 > y1 then (y1, y0) else (y0, y1))
      in \<lparr>Min_pt = \<lparr>X = x0, Y = y0\<rparr>, Max_pt = \<lparr>X = x1, Y = y1\<rparr>\<rparr>)"

definition ZR :: Rectangle where
  "ZR = \<lparr>Min_pt = \<lparr>X = 0, Y = 0\<rparr>, Max_pt = \<lparr>X = 0, Y = 0\<rparr>\<rparr>"

definition Dx :: "Rectangle \<Rightarrow> int" where
  "Dx r = X (Max_pt r) - X (Min_pt r)"

definition Dy :: "Rectangle \<Rightarrow> int" where
  "Dy r = Y (Max_pt r) - Y (Min_pt r)"

definition Add :: "Point \<Rightarrow> Point \<Rightarrow> Point" where
  "Add p q = \<lparr>X = X p + X q, Y = Y p + Y q\<rparr>"

definition Empty :: "Rectangle \<Rightarrow> bool" where
  "Empty r \<longleftrightarrow> X (Min_pt r) \<ge> X (Max_pt r) \<or> Y (Min_pt r) \<ge> Y (Max_pt r)"

definition Intersect :: "Rectangle \<Rightarrow> Rectangle \<Rightarrow> Rectangle" where
  "Intersect r s =
     (let x0 = (if X (Min_pt r) < X (Min_pt s) then X (Min_pt s) else X (Min_pt r));
          y0 = (if Y (Min_pt r) < Y (Min_pt s) then Y (Min_pt s) else Y (Min_pt r));
          x1 = (if X (Max_pt r) > X (Max_pt s) then X (Max_pt s) else X (Max_pt r));
          y1 = (if Y (Max_pt r) > Y (Max_pt s) then Y (Max_pt s) else Y (Max_pt r));
          r' = \<lparr>Min_pt = \<lparr>X = x0, Y = y0\<rparr>, Max_pt = \<lparr>X = x1, Y = y1\<rparr>\<rparr>
      in if Empty r' then ZR else r')"

text \<open>A rectangle is well-formed when its minimum is not beyond its maximum; the bounds
  of every image are.\<close>

definition well_formed :: "Rectangle \<Rightarrow> bool" where
  "well_formed r \<longleftrightarrow> X (Min_pt r) \<le> X (Max_pt r) \<and> Y (Min_pt r) \<le> Y (Max_pt r)"

text \<open>Of an image only its bounds matter here; the pixels are left out.\<close>

record Image =
  Bounds :: Rectangle

text \<open>Go's integer division \<^verbatim>\<open>a / b\<close> truncates toward zero, where \<open>div\<close> on \<^typ>\<open>int\<close>
  rounds down. The program divides by \<open>2\<close> only.\<close>

definition quo :: "int \<Rightarrow> int \<Rightarrow> int" where
  "quo a b = (if (a < 0) = (b < 0) then \<bar>a\<bar> div \<bar>b\<bar> else - (\<bar>a\<bar> div \<bar>b\<bar>))"

subsection \<open>Ways the process ends early\<close>

datatype error =
    ReadFontError | ParseFontError | ScanError | DrawError
  | HugeImage | OutOfMemory | OpenError | DecodeError | NotDrawable | WriteError

text \<open>
  A function of the program stops in one of four ways other than returning its result: it
  returns a Go \<^verbatim>\<open>error\<close> to its caller, it calls \<^verbatim>\<open>log.Fatal\<close> (the error on standard
  error, then \<^verbatim>\<open>os.Exit(1)\<close>), it calls \<^verbatim>\<open>usage()\<close> (usage text on standard error, then
  \<^verbatim>\<open>os.Exit(2)\<close>), or it panics.
\<close>

datatype stop = Err error | Fatal error | Usage | Panic error

subsection \<open>The placement calculator: \<^verbatim>\<open>textRect\<close>\<close>

definition textRect :: "Image \<Rightarrow> Image \<Rightarrow> string \<Rightarrow> stop + Rectangle" where
  "textRect dst src pos =
     (let ox = X (Max_pt (Bounds dst)) - Dx (Bounds src);
          oy = Y (Max_pt (Bounds dst)) - Dy (Bounds src);
          pt = (if pos = ''tl'' then Inr (Pt 0 0)
                else if pos = ''tc'' then Inr (Pt (quo ox 2) 0)
                else if pos = ''tr'' then Inr (Pt ox 0)
                else if pos = ''cl'' then Inr (Pt 0 (quo oy 2))
                else if pos = ''c'' then Inr (Pt (quo ox 2) (quo oy 2))
                else if pos = ''cr'' then Inr (Pt ox (quo oy 2))
                else if pos = ''bl'' then Inr (Pt 0 oy)
                else if pos = ''bc'' then Inr (Pt (quo ox 2) oy)
                else if pos = ''br'' then Inr (Pt ox oy)
                else Inl Usage)
      in case pt of
           Inl e \<Rightarrow> Inl e
         | Inr pt \<Rightarrow>
             (let ap = Add (Min_pt (Bounds dst)) pt
              in Inr (Rect (X ap) (Y ap) (X ap + Dx (Bounds src)) (Y ap + Dy (Bounds src)))))"

text \<open>The offset table of the specification, over the slack \<open>(ox, oy)\<close>.\<close>

definition anchor_offset :: "string \<Rightarrow> int \<Rightarrow> int \<Rightarrow> Point option" where
  "anchor_offset pos ox oy =
     map_of
       [(''tl'', Pt 0 0), (''tc'', Pt (quo ox 2) 0), (''tr'', Pt ox 0),
        (''cl'', Pt 0 (quo oy 2)), (''c'', Pt (quo ox 2) (quo oy 2)), (''cr'', Pt ox (quo oy 2)),
        (''bl'', Pt 0 oy), (''bc'', Pt (quo ox 2) oy), (''br'', Pt ox oy)] pos"

definition valid_anchors :: "string list" where
  "valid_anchors = [''tl'', ''tc'', ''tr'', ''cl'', ''c'', ''cr'', ''bl'', ''bc'', ''br'']"

subsection \<open>Package \<^verbatim>\<open>fixed\<close>: 26.6 fixed-point numbers\<close>

type_synonym Int26_6 = "32 word"

record Point26_6 =
  FX :: Int26_6
  FY :: Int26_6

text \<open>\<^verbatim>\<open>func (x Int26_6) Ceil() int { return int((x + 0x3f) >> 6) }\<close>: the addition wraps
  at 32 bits and the shift is arithmetic.\<close>

definition Ceil :: "Int26_6 \<Rightarrow> int" where
  "Ceil x = sint (signed_drop_bit 6 (x + 0x3f))"

text \<open>\<^verbatim>\<open>freetype.Pt(x, y)\<close>: a point of whole pixels, \<^verbatim>\<open>fixed.Int26_6(x << 6)\<close>.\<close>

definition freetype_Pt :: "int \<Rightarrow> int \<Rightarrow> Point26_6" where
  "freetype_Pt x y = \<lparr>FX = word_of_int (x * 2 ^ 6), FY = word_of_int (y * 2 ^ 6)\<rparr>"

text \<open>
  \<^verbatim>\<open>ctx.PointToFixed(x)\<close> turns a number of points into 26.6 pixels at the context's
  resolution, \<^verbatim>\<open>fixed.Int26_6(x * dpi * (64.0 / 72.0))\<close>. The library computes this in
  \<^verbatim>\<open>float64\<close>; the functions below therefore take the two fixed-point numbers they ask
  the context for, \<open>po\<close> for \<^verbatim>\<open>*fontSize\<close> and \<open>vs\<close> for \<^verbatim>\<open>*fontSize + 2.0\<close>, as
  parameters, and hold for whatever the conversion yields. The definition here does the
  same arithmetic on rationals, truncating toward zero as Go's conversion does. It agrees
  with the library where size and resolution are whole numbers and the product lies within
  the 32 bits, and is used only there, to name the values at given settings such as the
  defaults of 11 points at 96 DPI.
\<close>

definition trunc :: "rat \<Rightarrow> int" where
  "trunc r = (if r < 0 then \<lceil>r\<rceil> else \<lfloor>r\<rfloor>)"

definition PointToFixed :: "rat \<Rightarrow> rat \<Rightarrow> Int26_6" where
  "PointToFixed dpi x = word_of_int (trunc (x * dpi * (64 / 72)))"

subsection \<open>The bounds estimator: \<^verbatim>\<open>bounds\<close>\<close>

text \<open>The loop over the lines that keeps the greatest \<^verbatim>\<open>len(line)\<close>.\<close>

fun maxLen_loop :: "string list \<Rightarrow> int \<Rightarrow> int" where
  "maxLen_loop [] maxLen = maxLen"
| "maxLen_loop (line # lines) maxLen =
     (let l = int (length line)
      in maxLen_loop lines (if l > maxLen then l else maxLen))"

definition bounds :: "Int26_6 \<Rightarrow> Int26_6 \<Rightarrow> string list \<Rightarrow> Rectangle" where
  "bounds po vs lines =
     (let maxLen = maxLen_loop lines 0;
          dx = maxLen * Ceil po + 4 * Ceil po;
          dy = int (length lines) * Ceil vs + 4 * Ceil po
      in Rect 0 0 dx dy)"

text \<open>The length of the longest line in bytes, \<open>0\<close> when there is no line.\<close>

definition longest :: "string list \<Rightarrow> int" where
  "longest lines = Max (insert 0 (set (map (\<lambda>l. int (length l)) lines)))"

text \<open>
  The specification speaks of the character count of a line. In UTF-8 the characters of a
  well-formed string are as many as its bytes that are not continuation bytes
  (\<open>10xxxxxx\<close>).
\<close>

definition continuation :: "char \<Rightarrow> bool" where
  "continuation c \<longleftrightarrow> (128::nat) \<le> of_char c \<and> (of_char c :: nat) < 192"

definition char_count :: "string \<Rightarrow> nat" where
  "char_count s = length (filter (\<lambda>c. \<not> continuation c) s)"

definition longest_chars :: "string list \<Rightarrow> int" where
  "longest_chars lines = Max (insert 0 (set (map (\<lambda>l. int (char_count l)) lines)))"

subsection \<open>The text renderer: \<^verbatim>\<open>render\<close>\<close>

text \<open>
  \<^verbatim>\<open>image.NewRGBA(r)\<close> computes the size of the pixel buffer, four bytes a pixel, with
  \<^verbatim>\<open>mul3NonNeg\<close>, which is \<open>-1\<close> on overflow, and panics then; otherwise it makes the
  buffer with \<^verbatim>\<open>make([]uint8, n)\<close>. Whether the Go runtime can give a buffer of \<open>n\<close> bytes
  depends on the machine: \<^verbatim>\<open>make\<close> panics beyond the runtime's limit (\<open>2 ^ 48\<close> bytes on
  amd64) and the process dies when the memory is not there. The predicate \<open>alloc\<close> says
  for which sizes the buffer can be made, and is a parameter of the model.
\<close>

definition mul3NonNeg :: "int \<Rightarrow> int \<Rightarrow> int \<Rightarrow> int" where
  "mul3NonNeg x y z =
     (if x < 0 \<or> y < 0 \<or> z < 0 then - 1
      else if x * y \<ge> 2 ^ 64 then - 1
      else if x * y * z \<ge> 2 ^ 64 then - 1
      else if x * y * z \<ge> 2 ^ 63 then - 1
      else x * y * z)"

type_synonym allocator = "int \<Rightarrow> bool"

definition NewRGBA :: "allocator \<Rightarrow> Rectangle \<Rightarrow> stop + Image" where
  "NewRGBA alloc r =
     (let n = mul3NonNeg 4 (Dx r) (Dy r)
      in if n < 0 then Inl (Panic HugeImage)
         else if \<not> alloc n then Inl (Panic OutOfMemory)
         else Inr \<lparr>Bounds = r\<rparr>)"

text \<open>A runtime that has the memory for every buffer within the limit of amd64.\<close>

definition amd64 :: allocator where
  "amd64 n \<longleftrightarrow> n \<le> 2 ^ 48"

text \<open>\<^verbatim>\<open>(*RGBA).SubImage\<close>: the part of the image inside \<open>r\<close>, the empty image when there is none.\<close>

definition SubImage :: "Image \<Rightarrow> Rectangle \<Rightarrow> Image" where
  "SubImage p r =
     (let r = Intersect r (Bounds p)
      in if Empty r then \<lparr>Bounds = ZR\<rparr> else \<lparr>Bounds = r\<rparr>)"

text \<open>
  \<^verbatim>\<open>ctx.DrawString(line, p)\<close> of the configured context draws the glyphs of a line at \<open>p\<close>
  and returns the pen position it reached, or an error. It belongs to the rasterizer and
  is a parameter of the model.
\<close>

type_synonym drawer = "string \<Rightarrow> Point26_6 \<Rightarrow> error + Point26_6"

text \<open>The loop of \<^verbatim>\<open>render\<close> over the lines, with the pen \<open>p\<close> and the bounds reached so far.\<close>

fun draw_loop ::
  "drawer \<Rightarrow> Int26_6 \<Rightarrow> string list \<Rightarrow> Point26_6 \<Rightarrow> Point26_6 \<Rightarrow> stop + Point26_6" where
  "draw_loop DrawString vs [] p bnd = Inr bnd"
| "draw_loop DrawString vs (line # lines) p bnd =
     (let p = p\<lparr>FY := FY p + vs\<rparr>
      in case DrawString line p of
           Inl err \<Rightarrow> Inl (Err err)
         | Inr p1 \<Rightarrow>
             (let bnd = (if FX bnd <s FX p1 then bnd\<lparr>FX := FX p1\<rparr> else bnd);
                  bnd = bnd\<lparr>FY := FY p\<rparr>
              in draw_loop DrawString vs lines p bnd))"

definition render ::
  "allocator \<Rightarrow> drawer \<Rightarrow> Int26_6 \<Rightarrow> Int26_6 \<Rightarrow> string list \<Rightarrow> stop + Image" where
  "render alloc DrawString po vs lines =
     (case NewRGBA alloc (bounds po vs lines) of
        Inl s \<Rightarrow> Inl s
      | Inr img \<Rightarrow>
          (let offset = freetype_Pt 16 16
           in case draw_loop DrawString vs lines offset (freetype_Pt 0 0) of
                Inl s \<Rightarrow> Inl s
              | Inr bnd \<Rightarrow>
                  (let bnd = bnd\<lparr>FX := FX bnd + FX offset\<rparr>;
                       bnd = bnd\<lparr>FY := FY bnd + FY offset\<rparr>
                   in Inr (SubImage img (Rect 0 0 (Ceil (FX bnd)) (Ceil (FY bnd)))))))"

text \<open>A rasterizer for trying the model out: every byte of a line moves the pen 10 pixels
  to the right.\<close>

definition mono10 :: drawer where
  "mono10 line p = Inr (p\<lparr>FX := FX p + word_of_int (int (length line) * 640)\<rparr>)"

subsection \<open>The color parser: \<^verbatim>\<open>allocColorImage\<close>\<close>

record NRGBA =
  R :: "8 word"
  G :: "8 word"
  B :: "8 word"
  A :: "8 word"

definition byte :: "char \<Rightarrow> int" where
  "byte c = of_char c"

text \<open>
  \<^verbatim>\<open>fmt.Sscanf(col, "%x", &c)\<close> with \<open>c\<close> a \<^verbatim>\<open>uint32\<close>, as package \<^verbatim>\<open>fmt\<close> scans it: leading
  space is skipped, a newline there being an error; the longest run of hexadecimal digits
  is the token, which must not be empty; \<^verbatim>\<open>strconv.ParseUint(tok, 16, 64)\<close> rejects a value
  beyond 64 bits; a value beyond 32 bits is an error as well. On an error \<open>c\<close> is not
  assigned. What follows the token is not read.

  \<open>space_width s\<close> is the number of bytes of the space rune that \<open>s\<close> starts with in
  UTF-8 (\<^verbatim>\<open>isSpace\<close> of \<^verbatim>\<open>fmt\<close>), and \<open>0\<close> when it starts with none.
\<close>

fun space_width :: "string \<Rightarrow> nat" where
  "space_width [] = 0"
| "space_width (c # cs) =
     (let b = byte c; bs = map byte cs in
      if (9 \<le> b \<and> b \<le> 13) \<or> b = 32 then 1
      else if b = 0xC2 \<and> (take 1 bs = [0x85] \<or> take 1 bs = [0xA0]) then 2
      else if b = 0xE1 \<and> take 2 bs = [0x9A, 0x80] then 3
      else if b = 0xE2 \<and> take 1 bs = [0x80] \<and> length bs \<ge> 2 \<and>
              ((0x80 \<le> bs ! 1 \<and> bs ! 1 \<le> 0x8A) \<or> bs ! 1 = 0xA8 \<or> bs ! 1 = 0xA9 \<or> bs ! 1 = 0xAF)
      then 3
      else if b = 0xE2 \<and> take 2 bs = [0x81, 0x9F] then 3
      else if b = 0xE3 \<and> take 2 bs = [0x80, 0x80] then 3
      else 0)"

function SkipSpace :: "string \<Rightarrow> string option" where
  "SkipSpace s =
     (if s = [] then Some s
      else if hd s = CHR 0x0A then None
      else if space_width s = 0 then Some s
      else SkipSpace (drop (space_width s) s))"
  by pat_completeness auto
termination
  by (relation "measure length") auto

declare SkipSpace.simps [simp del]

definition hexadecimalDigits :: string where
  "hexadecimalDigits = ''0123456789aAbBcCdDeEfF''"

text \<open>The digit that \<^verbatim>\<open>strconv.ParseUint\<close> reads a byte as: \<open>0\<close> to \<open>9\<close>, then the letters in
  either case from \<open>10\<close> on.\<close>

definition digit_value :: "char \<Rightarrow> int option" where
  "digit_value c =
     (let b = byte c; l = (if 65 \<le> b \<and> b \<le> 90 then b + 32 else b) in
      if 48 \<le> b \<and> b \<le> 57 then Some (b - 48)
      else if 97 \<le> l \<and> l \<le> 122 then Some (l - 97 + 10)
      else None)"

fun ParseUint_loop :: "int \<Rightarrow> string \<Rightarrow> int \<Rightarrow> int option" where
  "ParseUint_loop base [] n = Some n"
| "ParseUint_loop base (c # cs) n =
     (case digit_value c of
        None \<Rightarrow> None
      | Some d \<Rightarrow>
          if d \<ge> base then None
          else if n * base + d \<ge> 2 ^ 64 then None
          else ParseUint_loop base cs (n * base + d))"

definition Sscanf_x :: "string \<Rightarrow> 32 word option" where
  "Sscanf_x str =
     (case SkipSpace str of
        None \<Rightarrow> None
      | Some s \<Rightarrow>
          if s = [] then None
          else
            (let tok = takeWhile (\<lambda>c. c \<in> set hexadecimalDigits) s in
             if tok = [] then None
             else case ParseUint_loop 16 tok 0 of
                    None \<Rightarrow> None
                  | Some i \<Rightarrow> if i \<ge> 2 ^ 32 then None else Some (word_of_int i)))"

text \<open>The value of \<open>c\<close> after the scan: \<open>c\<close> starts as zero, and the error of the scan is dropped.\<close>

definition scanned :: "string \<Rightarrow> 32 word" where
  "scanned col = (case Sscanf_x col of None \<Rightarrow> 0 | Some v \<Rightarrow> v)"

text \<open>The uniform image that \<^verbatim>\<open>allocColorImage\<close> returns is its color.\<close>



definition allocColorImage :: "string \<Rightarrow> NRGBA" where
  "allocColorImage col =
     (let c = scanned col
      in \<lparr>R = ucast (drop_bit 24 c AND 0xFF),
          G = ucast (drop_bit 16 c AND 0xFF),
          B = ucast (drop_bit 8 c AND 0xFF),
          A = ucast (c AND 0xFF)\<rparr>)"

text \<open>
  The number that a string of hexadecimal digits writes: every digit counts with a power of
  16, the first digit with the highest. The number of a color string is that of the
  hexadecimal digits it starts with, after leading space, when there are such digits and
  the number fits 32 bits, and \<open>0\<close> otherwise.
\<close>

definition hexval :: "char \<Rightarrow> int" where
  "hexval c =
     (case map_of (zip ''0123456789abcdef'' [0..15] @ zip ''ABCDEF'' [10..15]) c of
        Some v \<Rightarrow> v
      | None \<Rightarrow> 0)"

fun hex_number :: "string \<Rightarrow> int" where
  "hex_number [] = 0"
| "hex_number (c # cs) = hexval c * 16 ^ length cs + hex_number cs"

definition color_number :: "string \<Rightarrow> int" where
  "color_number col =
     (case SkipSpace col of
        None \<Rightarrow> 0
      | Some s \<Rightarrow>
          (let n = hex_number (takeWhile (\<lambda>c. c \<in> set hexadecimalDigits) s)
           in if n < 2 ^ 32 then n else 0))"

text \<open>
  Modelled from the spec: the program has no function that writes a color back as text. For
  the round trip of the specification, "formatting a color back to 8 hex digits",
  \<open>format8\<close> writes the four channels \<open>R\<close>, \<open>G\<close>, \<open>B\<close>, \<open>A\<close> as two small hexadecimal
  digits each, the form that the flags \<^verbatim>\<open>-c\<close> and \<^verbatim>\<open>-b\<close> document.
\<close>

definition hex_digit :: "int \<Rightarrow> char" where
  "hex_digit d = ''0123456789abcdef'' ! nat d"

definition hex2 :: "8 word \<Rightarrow> string" where
  "hex2 b = [hex_digit (uint b div 16), hex_digit (uint b mod 16)]"

definition format8 :: "NRGBA \<Rightarrow> string" where
  "format8 k = hex2 (R k) @ hex2 (G k) @ hex2 (B k) @ hex2 (A k)"

subsection \<open>The program: \<^verbatim>\<open>main\<close>\<close>

text \<open>
  The flags after parsing. The flags \<^verbatim>\<open>-d\<close> and \<^verbatim>\<open>-p\<close> are of type \<^verbatim>\<open>float64\<close> and reach
  the program only through the rasterizer's context, below.
\<close>

record flags =
  fgColor :: string
  bgColor :: string
  outFile :: string
  inFile :: string
  text_flag :: string
  fontFile :: string
  report :: bool
  anchor :: string

text \<open>
  The context that \<^verbatim>\<open>render\<close> configures with the font, the font size, the resolution and
  the foreground color: what it answers to \<^verbatim>\<open>PointToFixed(*fontSize)\<close> and to
  \<^verbatim>\<open>PointToFixed(*fontSize + 2.0)\<close>, and its \<^verbatim>\<open>DrawString\<close>.
\<close>

record Context =
  ctx_po :: Int26_6
  ctx_vs :: Int26_6
  ctx_DrawString :: drawer

text \<open>
  What the program reads from outside and the libraries it calls: the files, the bundled
  font, the font parser, the lines that a \<^verbatim>\<open>bufio.Scanner\<close> yields on standard input or on
  the text of flag \<^verbatim>\<open>-t\<close> together with its final error, the image decoder (with whether
  the decoded image is a \<^verbatim>\<open>draw.Image\<close>), the PNG encoder, the file writer, and the sizes
  of pixel buffers that the runtime can make.
\<close>

datatype source = Stdin | Text string

record 'font world =
  os_ReadFile :: "string \<Rightarrow> error + string"
  gomono_TTF :: string
  ParseFont :: "string \<Rightarrow> error + 'font"
  NewContext :: "'font \<Rightarrow> NRGBA \<Rightarrow> Context"
  Scanner :: "source \<Rightarrow> string list \<times> error option"
  os_Open :: "string \<Rightarrow> error + string"
  Decode :: "string \<Rightarrow> error + Image \<times> bool"
  png_Encode :: "Image \<Rightarrow> error + string"
  ioutil_WriteFile :: "string \<Rightarrow> string \<Rightarrow> error option"
  can_alloc :: allocator

text \<open>What a run does that can be seen from outside, in order.\<close>

datatype event =
    Stdout string      \<comment> \<open>text on standard output\<close>
  | UsageText          \<comment> \<open>the usage text on standard error\<close>
  | LogLine error      \<comment> \<open>the error that \<^verbatim>\<open>log.Fatal\<close> prints on standard error\<close>
  | Crash error        \<comment> \<open>the report of a panic\<close>
  | Canvas string      \<comment> \<open>the call of \<^verbatim>\<open>canvas\<close>, with the file name\<close>
  | Draw Rectangle     \<comment> \<open>the text image drawn over the canvas\<close>
  | WriteFile string   \<comment> \<open>the output file written\<close>

text \<open>\<^verbatim>\<open>strings.ReplaceAll(line, "\t", "    ")\<close>\<close>

definition expand_tabs :: "string \<Rightarrow> string" where
  "expand_tabs s = concat (map (\<lambda>c. if c = CHR 0x09 then ''    '' else [c]) s)"

definition textToRender :: "flags \<Rightarrow> 'font world \<Rightarrow> string list \<times> error option" where
  "textToRender f w =
     (let (scanned_lines, err) = Scanner w (if text_flag f = [] then Stdin else Text (text_flag f))
      in (map expand_tabs scanned_lines, err))"

definition canvas :: "'font world \<Rightarrow> string \<Rightarrow> Rectangle \<Rightarrow> stop + Image" where
  "canvas w fname bnds =
     (if fname = [] then NewRGBA (can_alloc w) bnds
      else case os_Open w fname of
             Inl err \<Rightarrow> Inl (Err err)
           | Inr fin \<Rightarrow>
               (case Decode w fin of
                  Inl err \<Rightarrow> Inl (Fatal err)
                | Inr (img, drawable) \<Rightarrow> if drawable then Inr img else Inl (Panic NotDrawable)))"

definition writeImage :: "'font world \<Rightarrow> Image \<Rightarrow> string \<Rightarrow> error option" where
  "writeImage w img fname =
     (case png_Encode w img of
        Inl err \<Rightarrow> Some err
      | Inr buf \<Rightarrow> ioutil_WriteFile w fname buf)"

text \<open>The decimal digits of \<^verbatim>\<open>%d\<close>.\<close>

function digits :: "nat \<Rightarrow> string" where
  "digits n = (if n < 10 then [char_of (48 + n)] else digits (n div 10) @ [char_of (48 + n mod 10)])"
  by pat_completeness auto
termination
  by (relation "measure id") auto

declare digits.simps [simp del]

definition itoa :: "int \<Rightarrow> string" where
  "itoa i = (if i < 0 then CHR ''-'' # digits (nat (- i)) else digits (nat i))"

text \<open>The end of a run that stops early: what has happened so far, the last message and
  the exit status.\<close>

fun finish :: "event list \<Rightarrow> stop \<Rightarrow> event list \<times> nat" where
  "finish tr (Err e) = (tr @ [LogLine e], 1)"
| "finish tr (Fatal e) = (tr @ [LogLine e], 1)"
| "finish tr Usage = (tr @ [UsageText], 2)"
| "finish tr (Panic e) = (tr @ [Crash e], 2)"

text \<open>A run of \<^verbatim>\<open>main\<close>: the events and the exit status.\<close>

definition main :: "flags \<Rightarrow> 'font world \<Rightarrow> event list \<times> nat" where
  "main f w =
     (if outFile f = [] \<and> \<not> report f then finish [] Usage
      else case (if fontFile f = [] then Inr (gomono_TTF w) else os_ReadFile w (fontFile f)) of
        Inl err \<Rightarrow> finish [] (Fatal err)
      | Inr fontData \<Rightarrow>
      (case ParseFont w fontData of
        Inl err \<Rightarrow> finish [] (Fatal err)
      | Inr font \<Rightarrow>
      (let fg = allocColorImage (fgColor f);
           bg = allocColorImage (bgColor f);
           ctx = NewContext w font fg
       in case textToRender f w of
        (lines, Some err) \<Rightarrow> finish [] (Fatal err)
      | (lines, None) \<Rightarrow>
      (case render (can_alloc w) (ctx_DrawString ctx) (ctx_po ctx) (ctx_vs ctx) lines of
        Inl (Err err) \<Rightarrow> finish [] (Fatal err)
      | Inl s \<Rightarrow> finish [] s
      | Inr img \<Rightarrow>
          if report f
          then ([Stdout (itoa (Dx (Bounds img)) @ ''x'' @ itoa (Dy (Bounds img)))], 0)
          else
            (case canvas w (inFile f) (Bounds img) of
               Inl (Err err) \<Rightarrow> finish [Canvas (inFile f)] (Fatal err)
             | Inl s \<Rightarrow> finish [Canvas (inFile f)] s
             | Inr cimg \<Rightarrow>
                 (case textRect cimg img (anchor f) of
                    Inl s \<Rightarrow> finish [Canvas (inFile f)] s
                  | Inr r \<Rightarrow>
                      (case writeImage w cimg (outFile f) of
                         Some err \<Rightarrow> finish [Canvas (inFile f), Draw r] (Fatal err)
                       | None \<Rightarrow> ([Canvas (inFile f), Draw r, WriteFile (outFile f)], 0))))))))"

text \<open>The font data that \<^verbatim>\<open>main\<close> loads.\<close>

definition fontData_of :: "flags \<Rightarrow> 'font world \<Rightarrow> error + string" where
  "fontData_of f w = (if fontFile f = [] then Inr (gomono_TTF w) else os_ReadFile w (fontFile f))"

text \<open>Kinds of events.\<close>

fun canvas_work :: "event \<Rightarrow> bool" where
  "canvas_work (Canvas _) = True"
| "canvas_work (Draw _) = True"
| "canvas_work _ = False"

fun file_written :: "event \<Rightarrow> bool" where
  "file_written (WriteFile _) = True"
| "file_written _ = False"

fun printed :: "event \<Rightarrow> bool" where
  "printed (Stdout _) = True"
| "printed _ = False"

subsection \<open>Sample inputs\<close>

text \<open>
  A world for trying the program out: the bundled font parses, the context has the given
  \<open>po\<close> and \<open>vs\<close> and draws with \<^const>\<open>mono10\<close>, standard input holds the given lines,
  the text of flag \<^verbatim>\<open>-t\<close> is one line, there is no file to open, writing succeeds, and
  the runtime is \<^const>\<open>amd64\<close>.
\<close>

definition sample_world :: "Int26_6 \<Rightarrow> Int26_6 \<Rightarrow> string list \<Rightarrow> unit world" where
  "sample_world p v stdin =
     \<lparr>os_ReadFile = (\<lambda>_. Inl ReadFontError),
      gomono_TTF = ''ttf'',
      ParseFont = (\<lambda>_. Inr ()),
      NewContext = (\<lambda>_ _. \<lparr>ctx_po = p, ctx_vs = v, ctx_DrawString = mono10\<rparr>),
      Scanner = (\<lambda>src. case src of Stdin \<Rightarrow> (stdin, None) | Text t \<Rightarrow> ([t], None)),
      os_Open = (\<lambda>_. Inl OpenError),
      Decode = (\<lambda>_. Inl DecodeError),
      png_Encode = (\<lambda>_. Inr ''png''),
      ioutil_WriteFile = (\<lambda>_ _. None),
      can_alloc = amd64\<rparr>"

text \<open>The default flags with output file \<^verbatim>\<open>out.png\<close>, and the given report mode, text and anchor.\<close>

definition sample_flags :: "bool \<Rightarrow> string \<Rightarrow> string \<Rightarrow> flags" where
  "sample_flags n t a =
     \<lparr>fgColor = ''000000ff'', bgColor = ''ffffe0ff'', outFile = ''out.png'', inFile = [],
      text_flag = t, fontFile = [], report = n, anchor = a\<rparr>"

text \<open>The letter e with acute accent, one character of two bytes in UTF-8.\<close>

definition e_acute :: string where
  "e_acute = [CHR 0xC3, CHR 0xA9]"

subsection \<open>Facts about rectangles\<close>

lemma quo_trunc: "quo (- 7) 2 = - 3" "quo 7 2 = 3" "quo (- 1) 2 = 0"
  by (simp_all add: quo_def)

lemma Rect_ordered:
  "x0 \<le> x1 \<Longrightarrow> y0 \<le> y1 \<Longrightarrow>
   Rect x0 y0 x1 y1 = \<lparr>Min_pt = \<lparr>X = x0, Y = y0\<rparr>, Max_pt = \<lparr>X = x1, Y = y1\<rparr>\<rparr>"
  by (simp add: Rect_def)

lemma well_formed_Rect: "well_formed (Rect x0 y0 x1 y1)"
  by (simp add: Rect_def well_formed_def Let_def)

lemma Dx_nonneg: "well_formed r \<Longrightarrow> 0 \<le> Dx r"
  by (simp add: well_formed_def Dx_def)

lemma Dy_nonneg: "well_formed r \<Longrightarrow> 0 \<le> Dy r"
  by (simp add: well_formed_def Dy_def)

subsection \<open>Placement on a canvas\<close>

text \<open>
  On a canvas whose bounds start at the origin, as those of a decoded picture do,
  \<^const>\<open>textRect\<close> follows the offset table with the slack taken from the widths and
  heights.
\<close>

lemma textRect_origin_canvas:
  assumes "Min_pt (Bounds dst) = Pt 0 0" and "well_formed (Bounds src)"
    and "anchor_offset pos (Dx (Bounds dst) - Dx (Bounds src)) (Dy (Bounds dst) - Dy (Bounds src)) = Some pt"
  shows "textRect dst src pos =
           Inr \<lparr>Min_pt = pt, Max_pt = \<lparr>X = X pt + Dx (Bounds src), Y = Y pt + Dy (Bounds src)\<rparr>\<rparr>"
proof -
  have ox: "X (Max_pt (Bounds dst)) = Dx (Bounds dst)" and oy: "Y (Max_pt (Bounds dst)) = Dy (Bounds dst)"
    using assms(1) by (simp_all add: Dx_def Dy_def Pt_def)
  have w: "0 \<le> Dx (Bounds src)" and h: "0 \<le> Dy (Bounds src)"
    using assms(2) by (simp_all add: Dx_nonneg Dy_nonneg)
  from assms(3) show ?thesis
    using w h
    by (auto simp add: anchor_offset_def textRect_def ox oy assms(1) Add_def Pt_def Rect_ordered
        split: if_splits)
qed

lemma textRect_tl:
  assumes "well_formed (Bounds src)"
  shows "textRect dst src ''tl'' =
           Inr \<lparr>Min_pt = Min_pt (Bounds dst),
                Max_pt = \<lparr>X = X (Min_pt (Bounds dst)) + Dx (Bounds src),
                          Y = Y (Min_pt (Bounds dst)) + Dy (Bounds src)\<rparr>\<rparr>"
  using Dx_nonneg [OF assms] Dy_nonneg [OF assms]
  by (simp add: textRect_def Add_def Pt_def Rect_ordered)

lemma textRect_br_origin_canvas:
  assumes "Min_pt (Bounds dst) = Pt 0 0" and "well_formed (Bounds src)"
  shows "\<exists>r. textRect dst src ''br'' = Inr r \<and> Max_pt r = Max_pt (Bounds dst)"
  using Dx_nonneg [OF assms(2)] Dy_nonneg [OF assms(2)] assms(1)
  by (simp add: textRect_def Add_def Pt_def Rect_ordered)

text \<open>
  Claim C1: for every canvas, text image and valid anchor, the slack is
  \<open>ox = canvasWidth - textWidth\<close> and \<open>oy = canvasHeight - textHeight\<close>, the offset is the one
  of the table, and the result is the rectangle at that offset in the canvas's coordinate
  space with the width and height of the text image.

  The code takes the slack from the canvas's maximum corner, not from its width and height,
  and then adds the offset to the canvas's minimum corner. On a canvas whose bounds do not
  start at the origin the two disagree. The program builds such a canvas from the flags
  \<^verbatim>\<open>-d -96 -p -1\<close> and 25 lines of one letter: \<open>po\<close> is positive and \<open>vs\<close> negative, the
  text image has the bounds \<open>(0,-1)-(10,0)\<close>, and so has the canvas built for it. Canvas and
  text are of the same size, the slack is \<open>0\<close>, and anchor \<open>bl\<close> has offset \<open>(0,0)\<close>, that is
  the rectangle \<open>(0,-1)-(10,0)\<close> of the canvas; \<^const>\<open>textRect\<close> returns \<open>(0,-2)-(10,-1)\<close>,
  outside the canvas, and the program draws there.
\<close>

theorem textRect_bl_negative_origin:
  "render amd64 mono10 (PointToFixed (- 96) (- 1)) (PointToFixed (- 96) 1) (replicate 25 ''a'')
     = Inr \<lparr>Bounds = Rect 0 (- 1) 10 0\<rparr>
   \<and> canvas (sample_world (PointToFixed (- 96) (- 1)) (PointToFixed (- 96) 1) (replicate 25 ''a''))
        [] (Rect 0 (- 1) 10 0)
     = Inr \<lparr>Bounds = Rect 0 (- 1) 10 0\<rparr>
   \<and> textRect \<lparr>Bounds = Rect 0 (- 1) 10 0\<rparr> \<lparr>Bounds = Rect 0 (- 1) 10 0\<rparr> ''bl''
     = Inr (Rect 0 (- 2) 10 (- 1))
   \<and> anchor_offset ''bl'' (Dx (Rect 0 (- 1) 10 0) - Dx (Rect 0 (- 1) 10 0))
        (Dy (Rect 0 (- 1) 10 0) - Dy (Rect 0 (- 1) 10 0)) = Some (Pt 0 0)
   \<and> Add (Min_pt (Rect 0 (- 1) 10 0)) (Pt 0 0) = Pt 0 (- 1)
   \<and> main (sample_flags False [] ''bl'')
        (sample_world (PointToFixed (- 96) (- 1)) (PointToFixed (- 96) 1) (replicate 25 ''a''))
     = ([Canvas [], Draw (Rect 0 (- 2) 10 (- 1)), WriteFile ''out.png''], 0)"
  by code_simp

text \<open>
  Claim C4: with anchor \<open>tl\<close> the offset is \<open>(0,0)\<close> whatever the sizes; with anchor \<open>br\<close>,
  when the text image fits within the canvas, the bottom-right corner of the result is the
  bottom-right corner of the canvas.

  For the same reason as above the second part fails on the canvas \<open>(0,-1)-(10,0)\<close> that
  the program builds from the flags \<^verbatim>\<open>-d -96 -p -1\<close> and 25 lines of one letter: the text
  image, of the same bounds, fits, and anchor \<open>br\<close> places it at \<open>(0,-2)-(10,-1)\<close>, whose
  bottom-right corner \<open>(10,-1)\<close> is not the corner \<open>(10,0)\<close> of the canvas.
\<close>

theorem textRect_br_negative_origin:
  "render amd64 mono10 (PointToFixed (- 96) (- 1)) (PointToFixed (- 96) 1) (replicate 25 ''a'')
     = Inr \<lparr>Bounds = Rect 0 (- 1) 10 0\<rparr>
   \<and> canvas (sample_world (PointToFixed (- 96) (- 1)) (PointToFixed (- 96) 1) (replicate 25 ''a''))
        [] (Rect 0 (- 1) 10 0)
     = Inr \<lparr>Bounds = Rect 0 (- 1) 10 0\<rparr>
   \<and> Dx (Rect 0 (- 1) 10 0) \<le> Dx (Rect 0 (- 1) 10 0)
   \<and> Dy (Rect 0 (- 1) 10 0) \<le> Dy (Rect 0 (- 1) 10 0)
   \<and> textRect \<lparr>Bounds = Rect 0 (- 1) 10 0\<rparr> \<lparr>Bounds = Rect 0 (- 1) 10 0\<rparr> ''br''
     = Inr (Rect 0 (- 2) 10 (- 1))
   \<and> Max_pt (Rect 0 (- 2) 10 (- 1)) = Pt 10 (- 1)
   \<and> Max_pt (Rect 0 (- 1) 10 0) = Pt 10 0
   \<and> main (sample_flags False [] ''br'')
        (sample_world (PointToFixed (- 96) (- 1)) (PointToFixed (- 96) 1) (replicate 25 ''a''))
     = ([Canvas [], Draw (Rect 0 (- 2) 10 (- 1)), WriteFile ''out.png''], 0)"
  by code_simp

subsection \<open>The bounds estimator and the renderer\<close>

lemma Ceil_range: "- (2 ^ 25) \<le> Ceil x \<and> Ceil x < 2 ^ 25"
proof -
  have "Ceil x = sint (x + 63) div 2 ^ 6"
    by (simp add: Ceil_def sint_signed_drop_bit_eq drop_bit_eq_div)
  moreover have "- (2 ^ 31) \<le> sint (x + 63)" "sint (x + 63) < 2 ^ 31"
    using sint_ge [of "x + 63"] sint_lt [of "x + 63"] by simp_all
  ultimately show ?thesis
    by simp linarith
qed

lemma Max_insert_insert:
  "finite S \<Longrightarrow> Max (insert a (insert b S)) = Max (insert (max a b) S)"
  for a b :: int
  by (cases "S = {}") (simp_all add: max.assoc)

lemma maxLen_loop_Max:
  "maxLen_loop lines m = Max (insert m (set (map (\<lambda>l. int (length l)) lines)))"
proof (induction lines arbitrary: m)
  case Nil
  show ?case by simp
next
  case (Cons line lines)
  let ?l = "int (length line)" and ?S = "set (map (\<lambda>l. int (length l)) lines)"
  have "maxLen_loop (line # lines) m = maxLen_loop lines (max m ?l)"
    by (simp add: Let_def max_def)
  also have "\<dots> = Max (insert (max m ?l) ?S)"
    by (rule Cons.IH)
  also have "\<dots> = Max (insert m (insert ?l ?S))"
    by (rule Max_insert_insert [symmetric]) simp
  finally show ?case by simp
qed

lemma maxLen_loop_longest: "maxLen_loop lines 0 = longest lines"
  by (simp add: maxLen_loop_Max longest_def)

lemma longest_nonneg: "0 \<le> longest lines"
  by (simp add: longest_def)

lemma Intersect_Dx: "well_formed s \<Longrightarrow> Dx (Intersect r s) \<le> Dx s"
  by (auto simp add: Intersect_def Let_def ZR_def Dx_def well_formed_def Empty_def)

lemma Intersect_Dy: "well_formed s \<Longrightarrow> Dy (Intersect r s) \<le> Dy s"
  by (auto simp add: Intersect_def Let_def ZR_def Dy_def well_formed_def Empty_def)

lemma Empty_Intersect: "Empty (Intersect r s) \<Longrightarrow> Intersect r s = ZR"
  by (auto simp add: Intersect_def Let_def split: if_splits)

lemma Bounds_SubImage: "Bounds (SubImage p r) = Intersect r (Bounds p)"
  by (simp add: SubImage_def Let_def Empty_Intersect)

lemma SubImage_eq: "SubImage p r = \<lparr>Bounds = Intersect r (Bounds p)\<rparr>"
  by (simp add: SubImage_def Let_def Empty_Intersect)

lemma Intersect_commute: "Intersect r s = Intersect s r"
  by (auto simp add: Intersect_def Let_def Empty_def)

lemma NewRGBA_Inr: "NewRGBA alloc r = Inr img \<Longrightarrow> Bounds img = r"
  by (auto simp add: NewRGBA_def Let_def split: if_splits)

lemma bounds_eq:
  "bounds po vs lines =
     Rect 0 0 (longest lines * Ceil po + 4 * Ceil po) (int (length lines) * Ceil vs + 4 * Ceil po)"
  by (simp add: bounds_def maxLen_loop_longest)

lemma bounds_corners:
  assumes "0 \<le> Ceil po" and "0 \<le> Ceil vs"
  shows "Min_pt (bounds po vs lines) = Pt 0 0"
    and "Max_pt (bounds po vs lines) =
           Pt (longest lines * Ceil po + 4 * Ceil po) (int (length lines) * Ceil vs + 4 * Ceil po)"
  using assms longest_nonneg [of lines]
  by (simp_all add: bounds_eq Rect_ordered Pt_def)

lemma default_po: "PointToFixed 96 11 = 938" "PointToFixed 96 13 = 1109"
  by code_simp+

lemma default_Ceil: "Ceil (PointToFixed 96 11) = 15" "Ceil (PointToFixed 96 13) = 18"
  by code_simp+

text \<open>
  Claim C3: for every sequence of lines the estimate is the rectangle from \<open>(0,0)\<close> to
  \<open>(maxLen * po + 4 * po, numLines * vs + 4 * po)\<close>, where \<open>maxLen\<close> is the character count
  of the longest line.

  The code measures a line with \<^verbatim>\<open>len\<close>, which counts bytes. For the one line
  \<^const>\<open>e_acute\<close>, one character of two bytes, at the default settings it returns a width
  of \<open>2 * 15 + 60 = 90\<close>, not \<open>1 * 15 + 60 = 75\<close>. (At 11 points \<open>po\<close> is for 11 points and
  \<open>vs\<close> for 13.)
\<close>

theorem bounds_character_count_counterexample:
  "char_count e_acute = 1 \<and> length e_acute = 2
   \<and> bounds (PointToFixed 96 11) (PointToFixed 96 13) [e_acute] = Rect 0 0 90 78
   \<and> Rect 0 0 (longest_chars [e_acute] * Ceil (PointToFixed 96 11) + 4 * Ceil (PointToFixed 96 11))
        (1 * Ceil (PointToFixed 96 13) + 4 * Ceil (PointToFixed 96 11)) = Rect 0 0 75 78
   \<and> Rect 0 0 90 78 \<noteq> Rect 0 0 75 78"
  by code_simp

text \<open>
  Claim C3, amended: for every sequence of lines the estimate is
  \<^verbatim>\<open>image.Rect(0, 0, maxLen * po + 4 * po, numLines * vs + 4 * po)\<close>, where \<open>maxLen\<close> is the
  length in bytes of the longest line (\<open>0\<close> without lines), \<open>po\<close> the ceiling of the pixel
  size of the font size and \<open>vs\<close> that of the font size plus two points.
\<close>

theorem bounds_rectangle:
  "bounds po vs lines =
     Rect 0 0 (longest lines * Ceil po + 4 * Ceil po) (int (length lines) * Ceil vs + 4 * Ceil po)"
  by (rule bounds_eq)

text \<open>
  Claim C5: for non-empty sequences of lines, width and height of the estimate do not
  decrease when the character count of the longest line or the number of lines grows.

  Two inputs show that this fails as stated. The width follows the bytes, not the
  characters: two \<^const>\<open>e_acute\<close> are fewer characters than \<open>abc\<close> and give the wider
  estimate. And with a font size of \<open>-1\<close> point, which flag \<^verbatim>\<open>-p\<close> accepts, \<open>po\<close> is
  negative while \<open>vs\<close>, for \<open>-1 + 2 = 1\<close> point, is positive, and a second line makes the
  estimate lower.
\<close>

theorem bounds_mono_counterexample:
  "longest_chars [e_acute @ e_acute] \<le> longest_chars [''abc'']
   \<and> length [e_acute @ e_acute] \<le> length [''abc'']
   \<and> \<not> Dx (bounds (PointToFixed 96 11) (PointToFixed 96 13) [e_acute @ e_acute])
        \<le> Dx (bounds (PointToFixed 96 11) (PointToFixed 96 13) [''abc''])
   \<and> longest [''a''] \<le> longest [''a'', ''a'']
   \<and> length [''a''] \<le> length [''a'', ''a'']
   \<and> \<not> Dy (bounds (PointToFixed 96 (- 1)) (PointToFixed 96 1) [''a''])
        \<le> Dy (bounds (PointToFixed 96 (- 1)) (PointToFixed 96 1) [''a'', ''a''])"
  by code_simp

text \<open>
  Claim C5, amended: when \<open>po\<close> and \<open>vs\<close> are not negative, as for every font size and
  resolution that are not negative, width and height of the estimate do not decrease when
  the length in bytes of the longest line or the number of lines grows. This holds for all
  sequences of lines, the non-empty ones among them.
\<close>

theorem bounds_mono:
  assumes "0 \<le> Ceil po" and "0 \<le> Ceil vs"
    and "longest lines \<le> longest lines'" and "length lines \<le> length lines'"
  shows "Dx (bounds po vs lines) \<le> Dx (bounds po vs lines') \<and>
         Dy (bounds po vs lines) \<le> Dy (bounds po vs lines')"
proof -
  have "longest lines * Ceil po \<le> longest lines' * Ceil po"
    using assms(3,1) by (rule mult_right_mono)
  moreover have "int (length lines) * Ceil vs \<le> int (length lines') * Ceil vs"
    using assms(2,4) by (simp add: mult_right_mono)
  ultimately show ?thesis
    using assms(1,2) by (simp add: bounds_corners Dx_def Dy_def Pt_def)
qed

lemma longest_sample: "longest [''ab''] \<le> longest [''abc'', ''d'']"
  by code_simp

theorem bounds_mono_witness:
  "0 \<le> Ceil (PointToFixed 96 11) \<and> 0 \<le> Ceil (PointToFixed 96 13)
   \<and> longest [''ab''] \<le> longest [''abc'', ''d''] \<and> length [''ab''] \<le> length [''abc'', ''d'']
   \<and> Dx (bounds (PointToFixed 96 11) (PointToFixed 96 13) [''ab''])
      \<le> Dx (bounds (PointToFixed 96 11) (PointToFixed 96 13) [''abc'', ''d''])
   \<and> Dy (bounds (PointToFixed 96 11) (PointToFixed 96 13) [''ab''])
      \<le> Dy (bounds (PointToFixed 96 11) (PointToFixed 96 13) [''abc'', ''d''])"
proof -
  have po: "0 \<le> Ceil (PointToFixed 96 11)" and vs: "0 \<le> Ceil (PointToFixed 96 13)"
    by (simp_all add: default_Ceil)
  have n: "length [''ab''] \<le> length [''abc'', ''d'']"
    by simp
  show ?thesis
    using bounds_mono [OF po vs longest_sample n] po vs longest_sample by simp
qed

text \<open>
  Claim C2: for every sequence of lines and every configuration, width and height of the
  image that the renderer returns do not exceed those of the estimate. The renderer crops
  the image it allocated from the estimate with \<^verbatim>\<open>SubImage\<close>, which intersects; so this
  holds whatever the rasterizer draws.
\<close>

theorem render_within_bounds:
  assumes "render alloc DrawString po vs lines = Inr img"
  shows "Dx (Bounds img) \<le> Dx (bounds po vs lines) \<and> Dy (Bounds img) \<le> Dy (bounds po vs lines)"
proof -
  have wf: "well_formed (bounds po vs lines)"
    by (simp add: bounds_def Let_def well_formed_Rect)
  from assms obtain p r where p: "NewRGBA alloc (bounds po vs lines) = Inr p" and img: "img = SubImage p r"
    by (auto simp add: render_def Let_def split: sum.splits)
  have "Bounds img = Intersect r (bounds po vs lines)"
    using NewRGBA_Inr [OF p] img by (simp add: Bounds_SubImage)
  then show ?thesis
    using wf by (simp add: Intersect_Dx Intersect_Dy)
qed

lemma render_sample:
  "render amd64 mono10 (PointToFixed 96 11) (PointToFixed 96 13) [''hello'', ''hi'']
     = Inr \<lparr>Bounds = Rect 0 0 82 67\<rparr>"
  by code_simp

lemma bounds_sample:
  "bounds (PointToFixed 96 11) (PointToFixed 96 13) [''hello'', ''hi''] = Rect 0 0 135 96"
  by code_simp

theorem render_within_bounds_witness:
  "render amd64 mono10 (PointToFixed 96 11) (PointToFixed 96 13) [''hello'', ''hi'']
     = Inr \<lparr>Bounds = Rect 0 0 82 67\<rparr>
   \<and> Dx (Rect 0 0 82 67) \<le> Dx (Rect 0 0 135 96)
   \<and> Dy (Rect 0 0 82 67) \<le> Dy (Rect 0 0 135 96)"
  using render_within_bounds [OF render_sample] render_sample by (simp add: bounds_sample)

lemma mul3NonNeg_small:
  assumes "0 \<le> y" "y \<le> 2 ^ 27" "0 \<le> z" "z \<le> 2 ^ 27"
  shows "mul3NonNeg 4 y z = 4 * y * z" and "0 \<le> mul3NonNeg 4 y z"
proof -
  have "y * z \<le> 2 ^ 27 * 2 ^ 27"
    using assms by (intro mult_mono) auto
  then have le: "4 * y * z \<le> 2 ^ 56"
    by simp
  have "0 \<le> y * z"
    using assms by simp
  then have ge: "0 \<le> 4 * y * z"
    by simp
  show eq: "mul3NonNeg 4 y z = 4 * y * z"
    unfolding mul3NonNeg_def using assms le ge by (auto simp add: mult_less_0_iff)
  show "0 \<le> mul3NonNeg 4 y z"
    unfolding eq by (rule ge)
qed

lemma NewRGBA_bounds_Nil:
  "NewRGBA alloc (bounds po vs []) =
     (if alloc (4 * Dx (bounds po vs []) * Dy (bounds po vs []))
      then Inr \<lparr>Bounds = bounds po vs []\<rparr> else Inl (Panic OutOfMemory))"
proof -
  let ?c = "4 * Ceil po"
  have b: "bounds po vs [] = Rect 0 0 ?c ?c"
    by (simp add: bounds_def)
  have d: "0 \<le> Dx (bounds po vs [])" "Dx (bounds po vs []) \<le> 2 ^ 27"
          "0 \<le> Dy (bounds po vs [])" "Dy (bounds po vs []) \<le> 2 ^ 27"
    using Ceil_range [of po] by (auto simp add: b Rect_def Dx_def Dy_def)
  have "mul3NonNeg 4 (Dx (bounds po vs [])) (Dy (bounds po vs []))
          = 4 * Dx (bounds po vs []) * Dy (bounds po vs [])"
    and "\<not> mul3NonNeg 4 (Dx (bounds po vs [])) (Dy (bounds po vs [])) < 0"
    using mul3NonNeg_small [OF d] by simp_all
  then show ?thesis
    by (simp add: NewRGBA_def)
qed

lemma Ceil_16: "Ceil (FX (freetype_Pt 0 0) + FX (freetype_Pt 16 16)) = 16"
  "Ceil (FY (freetype_Pt 0 0) + FY (freetype_Pt 16 16)) = 16"
  by (simp_all add: freetype_Pt_def Ceil_def)

lemma render_Nil:
  "render alloc DrawString po vs [] =
     (if alloc (4 * Dx (bounds po vs []) * Dy (bounds po vs []))
      then Inr \<lparr>Bounds = Intersect (bounds po vs []) (Rect 0 0 16 16)\<rparr>
      else Inl (Panic OutOfMemory))"
  by (simp add: render_def NewRGBA_bounds_Nil Let_def Ceil_16 SubImage_eq Intersect_commute)

lemma default_estimate_Nil:
  "bounds (PointToFixed 96 11) vs [] = Rect 0 0 60 60"
  "Intersect (Rect 0 0 60 60) (Rect 0 0 16 16) = Rect 0 0 16 16"
  "4 * Dx (Rect 0 0 60 60) * Dy (Rect 0 0 60 60) = 14400"
  by (simp_all add: bounds_def default_Ceil Intersect_def Rect_def Empty_def Dx_def Dy_def)

text \<open>
  Claim C10: without lines the renderer never fails and returns the image whose bounds are
  the intersection of the estimate with \<open>(0,0)-(16,16)\<close>; at 11 points and 96 DPI this image
  is 16 pixels wide and high.

  The renderer allocates the estimate before it looks at the lines. With a font size of
  25000000 points, which flag \<^verbatim>\<open>-p\<close> accepts, the estimate for no lines is a square of
  133333336 pixels, more than \<open>2 ^ 48\<close> bytes, which the runtime cannot make; the run dies.
\<close>

theorem render_no_lines_counterexample:
  "bounds (PointToFixed 96 25000000) (PointToFixed 96 25000002) [] = Rect 0 0 133333336 133333336
   \<and> \<not> amd64 (4 * 133333336 * 133333336)
   \<and> render amd64 mono10 (PointToFixed 96 25000000) (PointToFixed 96 25000002) []
       = Inl (Panic OutOfMemory)"
  by code_simp

text \<open>
  Claim C10, amended: without lines, whenever the runtime can make the pixel buffer of the
  estimate (four bytes a pixel), the renderer does not fail, whatever the font size and the
  resolution, and returns the image whose bounds are the intersection of the estimate with
  \<open>(0,0)-(16,16)\<close>; otherwise the run dies. At 11 points and 96 DPI the estimate is 60
  pixels wide and high, a buffer of 14400 bytes, and the image is 16 pixels wide and high.
\<close>

theorem render_no_lines:
  "(alloc (4 * Dx (bounds po vs []) * Dy (bounds po vs []))
      \<longrightarrow> render alloc DrawString po vs []
            = Inr \<lparr>Bounds = Intersect (bounds po vs []) (Rect 0 0 16 16)\<rparr>)
   \<and> (\<not> alloc (4 * Dx (bounds po vs []) * Dy (bounds po vs []))
      \<longrightarrow> render alloc DrawString po vs [] = Inl (Panic OutOfMemory))
   \<and> (alloc 14400
      \<longrightarrow> render alloc DrawString (PointToFixed 96 11) (PointToFixed 96 13) []
            = Inr \<lparr>Bounds = Rect 0 0 16 16\<rparr>
          \<and> Dx (Rect 0 0 16 16) = 16 \<and> Dy (Rect 0 0 16 16) = 16)
   \<and> bounds (PointToFixed 96 11) (PointToFixed 96 13) [] = Rect 0 0 60 60
   \<and> 4 * Dx (Rect 0 0 60 60) * Dy (Rect 0 0 60 60) = 14400
   \<and> \<not> Empty (Rect 0 0 16 16)"
proof (intro conjI impI)
  show "Dx (Rect 0 0 16 16) = 16" "Dy (Rect 0 0 16 16) = 16"
    by (simp_all add: Dx_def Dy_def Rect_def)
  show "\<not> Empty (Rect 0 0 16 16)"
    by (simp add: Empty_def Rect_def)
qed (simp_all add: render_Nil default_estimate_Nil)

theorem render_no_lines_witness:
  "amd64 (4 * Dx (bounds 938 1109 []) * Dy (bounds 938 1109 []))
   \<and> render amd64 mono10 938 1109 [] = Inr \<lparr>Bounds = Intersect (bounds 938 1109 []) (Rect 0 0 16 16)\<rparr>
   \<and> \<not> amd64 (4 * Dx (bounds (PointToFixed 96 25000000) 0 []) * Dy (bounds (PointToFixed 96 25000000) 0 []))
   \<and> render amd64 mono10 (PointToFixed 96 25000000) 0 [] = Inl (Panic OutOfMemory)
   \<and> amd64 14400
   \<and> render amd64 mono10 (PointToFixed 96 11) (PointToFixed 96 13) [] = Inr \<lparr>Bounds = Rect 0 0 16 16\<rparr>"
proof -
  have a: "amd64 (4 * Dx (bounds 938 1109 []) * Dy (bounds 938 1109 []))"
    by code_simp
  have b: "\<not> amd64 (4 * Dx (bounds (PointToFixed 96 25000000) 0 []) * Dy (bounds (PointToFixed 96 25000000) 0 []))"
    by code_simp
  have c: "amd64 14400"
    by (simp add: amd64_def)
  show ?thesis
    using render_no_lines [of amd64 938 1109 mono10] render_no_lines [of amd64 "PointToFixed 96 25000000" 0 mono10]
      a b c
    by simp
qed

subsection \<open>The color parser\<close>

lemma hex_digit_all:
  "list_all (\<lambda>d. digit_value (hex_digit d) = Some d
                \<and> hex_digit d \<in> set (hexadecimalDigits)
                \<and> 33 \<le> byte (hex_digit d) \<and> byte (hex_digit d) < 128)
     [0,1,2,3,4,5,6,7,8,9,10,11,12,13,14,15]"
  by code_simp

lemma sixteen: "0 \<le> d \<Longrightarrow> d < 16 \<Longrightarrow> d \<in> set [0,1,2,3,4,5,6,7,8,9,10,11,12,13,14,15]" for d :: int
  by simp presburger

lemma hex_digit_props:
  assumes "0 \<le> d" "d < 16"
  shows "digit_value (hex_digit d) = Some d"
    and "hex_digit d \<in> set (hexadecimalDigits)"
    and "33 \<le> byte (hex_digit d)" and "byte (hex_digit d) < 128"
  using hex_digit_all sixteen [OF assms] unfolding list_all_iff by blast+

lemma SkipSpace_hex_digit:
  assumes "0 \<le> d" "d < 16"
  shows "SkipSpace (hex_digit d # cs) = Some (hex_digit d # cs)"
proof -
  have "space_width (hex_digit d # cs) = 0"
    using hex_digit_props(3,4) [OF assms] by (simp add: Let_def)
  moreover have "hex_digit d \<noteq> CHR 0x0A"
    using hex_digit_props(3) [OF assms] by (auto simp add: byte_def)
  ultimately show ?thesis
    by (subst SkipSpace.simps) simp
qed

lemma nibbles: "0 \<le> uint b div 16" "uint b div 16 < 16" "0 \<le> uint b mod 16" "uint b mod 16 < 16"
  "uint b div 16 * 16 + uint b mod 16 = uint b"
  for b :: "8 word"
  using uint_lt2p [of b] uint_ge_0 [of b] by (simp_all add: pos_imp_zdiv_nonneg_iff)

lemma ParseUint_loop_step:
  assumes "0 \<le> d" "d < 16" "0 \<le> n" "n < 2 ^ 32"
  shows "ParseUint_loop 16 (hex_digit d # cs) n = ParseUint_loop 16 cs (n * 16 + d)"
proof -
  have "\<not> n * 16 + d \<ge> 2 ^ 64"
    using assms by simp
  then show ?thesis
    using assms by (simp add: hex_digit_props(1))
qed

lemma tok_format8: "takeWhile (\<lambda>c. c \<in> set (hexadecimalDigits)) (format8 k) = format8 k"
  by (simp add: format8_def hex2_def hex_digit_props(2) nibbles(1-4))

lemma skip_format8: "SkipSpace (format8 k) = Some (format8 k)"
  by (simp only: format8_def hex2_def append_Cons append_Nil SkipSpace_hex_digit nibbles)

lemma ParseUint_loop_hex2:
  assumes "0 \<le> n" "n < 2 ^ 24"
  shows "ParseUint_loop 16 (hex2 b @ cs) n = ParseUint_loop 16 cs (n * 256 + uint b)"
proof -
  let ?hi = "uint b div 16" and ?lo = "uint b mod 16"
  have m: "0 \<le> n * 16 + ?hi" "n * 16 + ?hi < 2 ^ 32" and n: "n < 2 ^ 32"
    using assms nibbles(1,2) [of b] by simp_all
  have "ParseUint_loop 16 (hex2 b @ cs) n = ParseUint_loop 16 (hex_digit ?hi # hex_digit ?lo # cs) n"
    by (simp add: hex2_def)
  also have "\<dots> = ParseUint_loop 16 (hex_digit ?lo # cs) (n * 16 + ?hi)"
    using nibbles(1,2) [of b] assms(1) n by (rule ParseUint_loop_step)
  also have "\<dots> = ParseUint_loop 16 cs ((n * 16 + ?hi) * 16 + ?lo)"
    using nibbles(3,4) [of b] m by (rule ParseUint_loop_step)
  also have "(n * 16 + ?hi) * 16 + ?lo = n * 256 + uint b"
    using nibbles(5) [of b] by simp
  finally show ?thesis .
qed

lemma parse_format8:
  "ParseUint_loop 16 (format8 k) 0 =
     Some (uint (R k) * 2 ^ 24 + uint (G k) * 2 ^ 16 + uint (B k) * 2 ^ 8 + uint (A k))"
proof -
  let ?r = "uint (R k)" and ?g = "uint (G k)" and ?b = "uint (B k)" and ?a = "uint (A k)"
  have bnd: "0 \<le> ?r" "?r < 256" "0 \<le> ?g" "?g < 256" "0 \<le> ?b" "?b < 256" "0 \<le> ?a" "?a < 256"
    using uint_lt2p [of "R k"] uint_lt2p [of "G k"] uint_lt2p [of "B k"] uint_lt2p [of "A k"]
    by simp_all
  have "ParseUint_loop 16 (format8 k) 0 = ParseUint_loop 16 (hex2 (G k) @ hex2 (B k) @ hex2 (A k) @ []) ?r"
    unfolding format8_def by (subst ParseUint_loop_hex2) simp_all
  also have "\<dots> = ParseUint_loop 16 (hex2 (B k) @ hex2 (A k) @ []) (?r * 256 + ?g)"
    using bnd by (subst ParseUint_loop_hex2) simp_all
  also have "\<dots> = ParseUint_loop 16 (hex2 (A k) @ []) ((?r * 256 + ?g) * 256 + ?b)"
    using bnd by (subst ParseUint_loop_hex2) simp_all
  also have "\<dots> = ParseUint_loop 16 [] (((?r * 256 + ?g) * 256 + ?b) * 256 + ?a)"
    using bnd by (subst ParseUint_loop_hex2) simp_all
  finally show ?thesis by simp
qed

lemma uint_drop_bit: "uint (drop_bit n w) = uint w div 2 ^ n" for w :: "32 word"
  by (simp add: unsigned_drop_bit_eq drop_bit_eq_div [where ?'a = int] take_bit_int_eq_self uint_lt2p [of w, simplified])

lemma low_byte: "ucast (w AND 0xFF) = (word_of_int (uint w mod 256) :: 8 word)" for w :: "32 word"
proof -
  have "w AND 0xFF = take_bit 8 w"
    by (simp add: take_bit_eq_mask mask_eq_exp_minus_1)
  then show ?thesis
    by (simp add: word_uint_eq_iff uint_word_of_int unsigned_ucast_eq unsigned_take_bit_eq
        take_bit_eq_mod [where ?'a = int])
qed

lemma byte_of: "ucast (drop_bit n w AND 0xFF) = (word_of_int (uint w div 2 ^ n mod 256) :: 8 word)"
  for w :: "32 word"
  by (simp only: low_byte uint_drop_bit)

lemma digit_split:
  "0 \<le> x \<Longrightarrow> x < m \<Longrightarrow> (q * m + x) div m = q"
  "0 \<le> x \<Longrightarrow> x < m \<Longrightarrow> (q * m + x) mod m = x"
  for x m q :: int
  by simp_all

lemma bytes_join:
  fixes r g b a :: "8 word"
  defines "v \<equiv> uint r * 2 ^ 24 + uint g * 2 ^ 16 + uint b * 2 ^ 8 + uint a"
  shows "ucast (drop_bit 24 (word_of_int v :: 32 word) AND 0xFF) = r"
    and "ucast (drop_bit 16 (word_of_int v :: 32 word) AND 0xFF) = g"
    and "ucast (drop_bit 8 (word_of_int v :: 32 word) AND 0xFF) = b"
    and "ucast ((word_of_int v :: 32 word) AND 0xFF) = a"
proof -
  have rb: "0 \<le> uint r" "uint r < 256" and gb: "0 \<le> uint g" "uint g < 256"
    and bb: "0 \<le> uint b" "uint b < 256" and ab: "0 \<le> uint a" "uint a < 256"
    using uint_lt2p [of r] uint_lt2p [of g] uint_lt2p [of b] uint_lt2p [of a] by simp_all
  have v: "0 \<le> v" "v < 2 ^ 32"
    using rb gb bb ab by (simp_all add: v_def)
  have u: "uint (word_of_int v :: 32 word) = v"
    using v by (simp add: uint_word_of_int_eq take_bit_int_eq_self)
  have "v = uint r * 2 ^ 24 + (uint g * 2 ^ 16 + uint b * 2 ^ 8 + uint a)"
    by (simp add: v_def)
  moreover have "(uint r * 2 ^ 24 + (uint g * 2 ^ 16 + uint b * 2 ^ 8 + uint a)) div 2 ^ 24 = uint r"
    using gb bb ab by (intro digit_split) simp_all
  ultimately have d24: "v div 2 ^ 24 mod 256 = uint r"
    using rb by simp
  have "v = (uint r * 2 ^ 8 + uint g) * 2 ^ 16 + (uint b * 2 ^ 8 + uint a)"
    by (simp add: v_def)
  moreover have "((uint r * 2 ^ 8 + uint g) * 2 ^ 16 + (uint b * 2 ^ 8 + uint a)) div 2 ^ 16
                 = uint r * 2 ^ 8 + uint g"
    using bb ab by (intro digit_split) simp_all
  moreover have "(uint r * 2 ^ 8 + uint g) mod 2 ^ 8 = uint g"
    using gb by (intro digit_split) simp_all
  ultimately have d16: "v div 2 ^ 16 mod 256 = uint g"
    by simp
  have "v = ((uint r * 2 ^ 8 + uint g) * 2 ^ 8 + uint b) * 2 ^ 8 + uint a"
    by (simp add: v_def)
  moreover have "(((uint r * 2 ^ 8 + uint g) * 2 ^ 8 + uint b) * 2 ^ 8 + uint a) div 2 ^ 8
                 = (uint r * 2 ^ 8 + uint g) * 2 ^ 8 + uint b"
    using ab by (intro digit_split) simp_all
  moreover have "(((uint r * 2 ^ 8 + uint g) * 2 ^ 8 + uint b) * 2 ^ 8 + uint a) mod 2 ^ 8 = uint a"
    using ab by (intro digit_split) simp_all
  moreover have "((uint r * 2 ^ 8 + uint g) * 2 ^ 8 + uint b) mod 2 ^ 8 = uint b"
    using bb by (intro digit_split) simp_all
  ultimately have d8: "v div 2 ^ 8 mod 256 = uint b" and d0: "v mod 256 = uint a"
    by simp_all
  show "ucast (drop_bit 24 (word_of_int v :: 32 word) AND 0xFF) = r"
    by (simp only: byte_of u d24 word_of_int_uint)
  show "ucast (drop_bit 16 (word_of_int v :: 32 word) AND 0xFF) = g"
    by (simp only: byte_of u d16 word_of_int_uint)
  show "ucast (drop_bit 8 (word_of_int v :: 32 word) AND 0xFF) = b"
    by (simp only: byte_of u d8 word_of_int_uint)
  show "ucast ((word_of_int v :: 32 word) AND 0xFF) = a"
    by (simp only: low_byte u d0 word_of_int_uint)
qed

lemma Sscanf_x_format8:
  "Sscanf_x (format8 k) =
     Some (word_of_int (uint (R k) * 2 ^ 24 + uint (G k) * 2 ^ 16 + uint (B k) * 2 ^ 8 + uint (A k)))"
proof -
  have ne: "format8 k \<noteq> []"
    by (simp add: format8_def hex2_def)
  have lt: "\<not> 2 ^ 32 \<le> uint (R k) * 2 ^ 24 + uint (G k) * 2 ^ 16 + uint (B k) * 2 ^ 8 + uint (A k)"
    using uint_lt2p [of "R k"] uint_lt2p [of "G k"] uint_lt2p [of "B k"] uint_lt2p [of "A k"]
    by simp
  show ?thesis
    unfolding Sscanf_x_def skip_format8 option.case Let_def tok_format8 parse_format8
    using ne lt by (simp only: if_False)
qed

lemma allocColorImage_format8: "allocColorImage (format8 k) = k"
  unfolding allocColorImage_def scanned_def Sscanf_x_format8 Let_def
  by (simp only: option.case bytes_join) simp

lemma bit_255: "bit (255 :: 32 word) n \<longleftrightarrow> n < 8"
proof -
  have "(255 :: 32 word) = mask 8"
    by (simp add: mask_eq_exp_minus_1)
  then show ?thesis
    by (simp only: bit_mask_iff) auto
qed

lemma bit_255_int: "bit (255 :: int) n \<longleftrightarrow> n < 8"
proof -
  have "(255 :: int) = mask 8"
    by (simp add: mask_eq_exp_minus_1)
  then show ?thesis
    by (simp only: bit_mask_iff) auto
qed

lemma hexadecimalDigits_all:
  "list_all (\<lambda>c. digit_value c = Some (hexval c) \<and> 0 \<le> hexval c \<and> hexval c < 16) hexadecimalDigits"
  by code_simp

lemma hex_char:
  assumes "c \<in> set hexadecimalDigits"
  shows "digit_value c = Some (hexval c)" and "0 \<le> hexval c" and "hexval c < 16"
  using hexadecimalDigits_all assms unfolding list_all_iff by blast+

lemma hex_number_nonneg: "\<forall>c \<in> set tok. c \<in> set hexadecimalDigits \<Longrightarrow> 0 \<le> hex_number tok"
proof (induction tok)
  case Nil
  show ?case by simp
next
  case (Cons c cs)
  have "0 \<le> hexval c * 16 ^ length cs"
    using Cons.prems by (simp add: hex_char(2))
  moreover have "0 \<le> hex_number cs"
    using Cons by simp
  ultimately show ?case by simp
qed

lemma ParseUint_loop_hex:
  assumes "\<forall>c \<in> set tok. c \<in> set hexadecimalDigits" and "0 \<le> n" and "n < 2 ^ 64"
  shows "ParseUint_loop 16 tok n =
           (if n * 16 ^ length tok + hex_number tok < 2 ^ 64
            then Some (n * 16 ^ length tok + hex_number tok) else None)"
  using assms
proof (induction tok arbitrary: n)
  case Nil
  then show ?case by simp
next
  case (Cons c cs)
  let ?d = "hexval c" and ?m = "n * 16 + hexval c"
  have c: "digit_value c = Some ?d" "0 \<le> ?d" "?d < 16"
    using Cons.prems(1) by (simp_all add: hex_char)
  have cs: "\<forall>c \<in> set cs. c \<in> set hexadecimalDigits"
    using Cons.prems(1) by simp
  have m: "0 \<le> ?m"
    using Cons.prems(2) c(2) by simp
  have total: "n * 16 ^ length (c # cs) + hex_number (c # cs) = ?m * 16 ^ length cs + hex_number cs"
    by (simp add: algebra_simps)
  show ?case
  proof (cases "?m < 2 ^ 64")
    case True
    have "ParseUint_loop 16 (c # cs) n = ParseUint_loop 16 cs ?m"
      using c True by simp
    also have "\<dots> = (if ?m * 16 ^ length cs + hex_number cs < 2 ^ 64
            then Some (?m * 16 ^ length cs + hex_number cs) else None)"
      using cs m True by (rule Cons.IH)
    finally show ?thesis
      by (simp only: total)
  next
    case False
    have "?m * 1 \<le> ?m * 16 ^ length cs"
      using m by (intro mult_left_mono) simp_all
    then have "?m \<le> ?m * 16 ^ length cs"
      by (simp only: mult_1_right)
    then have "2 ^ 64 \<le> ?m * 16 ^ length cs + hex_number cs"
      using False hex_number_nonneg [OF cs] by linarith
    then have "\<not> n * 16 ^ length (c # cs) + hex_number (c # cs) < 2 ^ 64"
      by (simp only: total not_less)
    moreover have "ParseUint_loop 16 (c # cs) n = None"
      using c False by simp
    ultimately show ?thesis
      by (simp only: if_False)
  qed
qed

lemma takeWhile_hex: "\<forall>c \<in> set (takeWhile (\<lambda>c. c \<in> set hexadecimalDigits) s). c \<in> set hexadecimalDigits"
  by (auto dest: set_takeWhileD)

lemma Sscanf_x_number:
  "Sscanf_x col =
     (case SkipSpace col of
        None \<Rightarrow> None
      | Some s \<Rightarrow>
          (let tok = takeWhile (\<lambda>c. c \<in> set hexadecimalDigits) s
           in if tok = [] \<or> 2 ^ 32 \<le> hex_number tok then None
              else Some (word_of_int (hex_number tok))))"
proof (cases "SkipSpace col")
  case None
  then show ?thesis by (simp add: Sscanf_x_def)
next
  case (Some s)
  let ?tok = "takeWhile (\<lambda>c. c \<in> set hexadecimalDigits) s"
  have p: "ParseUint_loop 16 ?tok 0 =
      (if hex_number ?tok < 2 ^ 64 then Some (hex_number ?tok) else None)"
    using ParseUint_loop_hex [OF takeWhile_hex, of 0 s] by simp
  show ?thesis
  proof (cases "?tok = []")
    case True
    then show ?thesis
      by (simp add: Sscanf_x_def Some Let_def)
  next
    case False
    then have s: "s \<noteq> []"
      by auto
    show ?thesis
    proof (cases "hex_number ?tok < 2 ^ 32")
      case True
      then have "hex_number ?tok < 2 ^ 64"
        by simp
      then show ?thesis
        using True False s by (simp add: Sscanf_x_def Some Let_def p)
    next
      case big: False
      then show ?thesis
        using False s by (simp add: Sscanf_x_def Some Let_def p)
    qed
  qed
qed

lemma scanned_number: "scanned col = word_of_int (color_number col)"
proof (cases "SkipSpace col")
  case None
  then show ?thesis
    by (simp add: scanned_def color_number_def Sscanf_x_number)
next
  case (Some s)
  then show ?thesis
    by (simp add: scanned_def color_number_def Sscanf_x_number Let_def not_less)
qed

lemma color_number_range: "0 \<le> color_number col" "color_number col < 2 ^ 32"
proof -
  have *: "0 \<le> hex_number (takeWhile (\<lambda>c. c \<in> set hexadecimalDigits) s)" for s
    by (rule hex_number_nonneg) (rule takeWhile_hex)
  show "0 \<le> color_number col"
    using * by (simp add: color_number_def Let_def split: option.splits)
  show "color_number col < 2 ^ 32"
    by (simp add: color_number_def Let_def split: option.splits)
qed

lemma uint_color_number: "uint (word_of_int (color_number col) :: 32 word) = color_number col"
  using color_number_range [of col] by (simp add: uint_word_of_int_eq take_bit_int_eq_self)

lemma allocColorImage_number:
  "allocColorImage col =
     \<lparr>R = word_of_int (color_number col div 2 ^ 24 mod 256),
      G = word_of_int (color_number col div 2 ^ 16 mod 256),
      B = word_of_int (color_number col div 2 ^ 8 mod 256),
      A = word_of_int (color_number col mod 256)\<rparr>"
  unfolding allocColorImage_def Let_def scanned_number
  by (simp only: low_byte uint_drop_bit uint_color_number)

lemma number_samples:
  "color_number ''0a0b0cff'' = 0x0a0b0cff"
  "color_number ''ff'' = 0xff"
  "color_number ''12zz'' = 0x12"
  "color_number ''f_f'' = 0xf"
  "color_number ''zz'' = 0"
  "color_number ''123456789'' = 0"
  by code_simp+

lemma color_samples:
  "allocColorImage ''0a0b0cff'' = \<lparr>R = 0x0a, G = 0x0b, B = 0x0c, A = 0xff\<rparr>"
  "allocColorImage ''ff'' = \<lparr>R = 0, G = 0, B = 0, A = 0xff\<rparr>"
  "allocColorImage ''12zz'' = \<lparr>R = 0, G = 0, B = 0, A = 0x12\<rparr>"
  "allocColorImage ''f_f'' = \<lparr>R = 0, G = 0, B = 0, A = 0x0f\<rparr>"
  "allocColorImage ''zz'' = \<lparr>R = 0, G = 0, B = 0, A = 0\<rparr>"
  "allocColorImage ''123456789'' = \<lparr>R = 0, G = 0, B = 0, A = 0\<rparr>"
  by code_simp+

lemma channel_bits:
  "bit (R (allocColorImage col)) n \<longleftrightarrow> n < 8 \<and> bit (scanned col) (24 + n)"
  "bit (G (allocColorImage col)) n \<longleftrightarrow> n < 8 \<and> bit (scanned col) (16 + n)"
  "bit (B (allocColorImage col)) n \<longleftrightarrow> n < 8 \<and> bit (scanned col) (8 + n)"
  "bit (A (allocColorImage col)) n \<longleftrightarrow> n < 8 \<and> bit (scanned col) n"
  by (auto simp add: allocColorImage_def Let_def bit_simps bit_255 bit_255_int)

text \<open>
  Claim C6: for every string the color parser scans an unsigned 32-bit hexadecimal number
  and takes the channels from it by shifting, \<open>R\<close> from bits 31 to 24, \<open>G\<close> from bits 23 to
  16, \<open>B\<close> from bits 15 to 8 and \<open>A\<close> from bits 7 to 0; it checks neither the length nor the
  characters and raises no error.

  For every string the value scanned is the number of the string, \<^const>\<open>color_number\<close>:
  the number that its leading hexadecimal digits write, and \<open>0\<close> when there are none or the
  number does not fit 32 bits. The four channels are the four bytes of that number, the
  highest first; and the function returns a color for every string.
\<close>

theorem allocColorImage_channels:
  "allocColorImage col =
     \<lparr>R = word_of_int (color_number col div 2 ^ 24 mod 256),
      G = word_of_int (color_number col div 2 ^ 16 mod 256),
      B = word_of_int (color_number col div 2 ^ 8 mod 256),
      A = word_of_int (color_number col mod 256)\<rparr>
   \<and> scanned col = word_of_int (color_number col)
   \<and> 0 \<le> color_number col \<and> color_number col < 2 ^ 32
   \<and> (bit (R (allocColorImage col)) n \<longleftrightarrow> n < 8 \<and> bit (scanned col) (24 + n))
   \<and> (bit (G (allocColorImage col)) n \<longleftrightarrow> n < 8 \<and> bit (scanned col) (16 + n))
   \<and> (bit (B (allocColorImage col)) n \<longleftrightarrow> n < 8 \<and> bit (scanned col) (8 + n))
   \<and> (bit (A (allocColorImage col)) n \<longleftrightarrow> n < 8 \<and> bit (scanned col) n)
   \<and> color_number ''0a0b0cff'' = 0x0a0b0cff
   \<and> color_number ''ff'' = 0xff
   \<and> color_number ''12zz'' = 0x12
   \<and> color_number ''f_f'' = 0xf
   \<and> color_number ''zz'' = 0
   \<and> color_number ''123456789'' = 0
   \<and> allocColorImage ''f_f'' = \<lparr>R = 0, G = 0, B = 0, A = 0x0f\<rparr>"
  using allocColorImage_number [of col] scanned_number [of col] color_number_range [of col]
    channel_bits [of col n]
  by (simp only: number_samples color_samples simp_thms)

text \<open>
  Claim C7: for every well-formed string of eight hexadecimal digits, parsing it, writing
  the four channels back as eight hexadecimal digits and parsing again gives the channels of
  the first parse. This holds for every string, since every color is read back from what
  \<^const>\<open>format8\<close> writes for it; and a string of eight small hexadecimal digits such as
  the default background is itself written back.
\<close>

theorem color_round_trip:
  "allocColorImage (format8 (allocColorImage s)) = allocColorImage s
   \<and> allocColorImage (format8 k) = k
   \<and> format8 (allocColorImage ''ffffe0ff'') = ''ffffe0ff''"
proof -
  have "format8 (allocColorImage ''ffffe0ff'') = ''ffffe0ff''"
    by code_simp
  then show ?thesis
    by (simp add: allocColorImage_format8)
qed

subsection \<open>The program\<close>

lemma SubImage_dims:
  "(0 < Dx (Bounds (SubImage p r)) \<and> 0 < Dy (Bounds (SubImage p r)))
   \<or> (Dx (Bounds (SubImage p r)) = 0 \<and> Dy (Bounds (SubImage p r)) = 0)"
  by (auto simp add: SubImage_def Let_def ZR_def Dx_def Dy_def Empty_def)

lemma render_dims:
  assumes "render alloc DrawString po vs lines = Inr img"
  shows "(0 < Dx (Bounds img) \<and> 0 < Dy (Bounds img)) \<or> (Dx (Bounds img) = 0 \<and> Dy (Bounds img) = 0)"
proof -
  from assms obtain p r where "img = SubImage p r"
    by (auto simp add: render_def Let_def split: sum.splits)
  then show ?thesis
    using SubImage_dims [of p r] by simp
qed

lemma report_trace:
  assumes "report f"
  shows "main f w =
    (case fontData_of f w of Inl err \<Rightarrow> ([LogLine err], 1)
     | Inr fontData \<Rightarrow>
      (case ParseFont w fontData of Inl err \<Rightarrow> ([LogLine err], 1)
       | Inr font \<Rightarrow>
        (case textToRender f w of (lines, Some err) \<Rightarrow> ([LogLine err], 1)
         | (lines, None) \<Rightarrow>
          (let ctx = NewContext w font (allocColorImage (fgColor f))
           in case render (can_alloc w) (ctx_DrawString ctx) (ctx_po ctx) (ctx_vs ctx) lines of
                Inl s \<Rightarrow> finish [] (case s of Err e \<Rightarrow> Fatal e | _ \<Rightarrow> s)
              | Inr img \<Rightarrow> ([Stdout (itoa (Dx (Bounds img)) @ ''x'' @ itoa (Dy (Bounds img)))], 0)))))"
  using assms
  by (simp add: main_def fontData_of_def Let_def split: sum.splits stop.splits option.splits prod.splits)

lemma finish_Nil_events:
  "\<forall>ev \<in> set (fst (finish [] s)). \<not> canvas_work ev \<and> \<not> file_written ev \<and> \<not> printed ev"
  "snd (finish tr s) \<noteq> 0"
  by (cases s; simp)+

lemma textRect_invalid:
  "pos \<notin> set valid_anchors \<Longrightarrow> textRect dst src pos = Inl Usage"
  by (simp add: textRect_def valid_anchors_def)

lemma main_bad_anchor:
  assumes "anchor f \<notin> set valid_anchors"
  shows "\<forall>ev \<in> set (fst (main f w)). \<not> file_written ev"
    and "\<not> report f \<Longrightarrow> snd (main f w) \<noteq> 0"
  using assms
  by (auto simp add: main_def Let_def textRect_invalid
      split: sum.splits stop.splits option.splits prod.splits)

lemma finish_Nil_status: "snd (finish [] s) \<noteq> 0"
  by (cases s) simp_all

lemma report_failure:
  assumes "report f"
  shows "(\<exists>fontData font lines img.
            fontData_of f w = Inr fontData \<and> ParseFont w fontData = Inr font
            \<and> textToRender f w = (lines, None)
            \<and> render (can_alloc w) (ctx_DrawString (NewContext w font (allocColorImage (fgColor f))))
                 (ctx_po (NewContext w font (allocColorImage (fgColor f))))
                 (ctx_vs (NewContext w font (allocColorImage (fgColor f)))) lines = Inr img)
         \<or> (snd (main f w) \<noteq> 0 \<and> (\<forall>ev \<in> set (fst (main f w)). \<not> printed ev))"
proof (cases "fontData_of f w")
  case (Inl e)
  then show ?thesis
    by (simp add: report_trace [OF assms])
next
  case fd: (Inr fontData)
  show ?thesis
  proof (cases "ParseFont w fontData")
    case (Inl e)
    then show ?thesis
      by (simp add: report_trace [OF assms] fd)
  next
    case ft: (Inr font)
    obtain lines err where t: "textToRender f w = (lines, err)"
      by (cases "textToRender f w")
    show ?thesis
    proof (cases err)
      case (Some e)
      then show ?thesis
        by (simp add: report_trace [OF assms] fd ft t)
    next
      case None
      let ?ctx = "NewContext w font (allocColorImage (fgColor f))"
      show ?thesis
      proof (cases "render (can_alloc w) (ctx_DrawString ?ctx) (ctx_po ?ctx) (ctx_vs ?ctx) lines")
        case (Inl s)
        have "snd (main f w) \<noteq> 0 \<and> (\<forall>ev \<in> set (fst (main f w)). \<not> printed ev)"
          using finish_Nil_events(1) [of "case s of Err e \<Rightarrow> Fatal e | _ \<Rightarrow> s"]
            finish_Nil_status [of "case s of Err e \<Rightarrow> Fatal e | _ \<Rightarrow> s"]
          by (simp add: report_trace [OF assms] fd ft t None Inl Let_def)
        then show ?thesis ..
      next
        case (Inr img)
        then show ?thesis
          using fd ft t None by blast
      qed
    qed
  qed
qed

lemma report_ignores_anchor:
  assumes "report f"
  shows "main (f\<lparr>anchor := a\<rparr>) w = main f w"
proof -
  have r: "report (f\<lparr>anchor := a\<rparr>)"
    using assms by simp
  have 1: "fontData_of (f\<lparr>anchor := a\<rparr>) w = fontData_of f w"
    by (simp add: fontData_of_def)
  have 2: "textToRender (f\<lparr>anchor := a\<rparr>) w = textToRender f w"
    by (simp add: textToRender_def)
  have 3: "fgColor (f\<lparr>anchor := a\<rparr>) = fgColor f"
    by simp
  show ?thesis
    unfolding report_trace [OF r] report_trace [OF assms] 1 2 3 by (rule refl)
qed

lemma three_lines:
  "render amd64 mono10 (PointToFixed 96 11) (PointToFixed 96 13) [''one'', ''two'', ''three'']
     = Inr \<lparr>Bounds = Rect 0 0 82 84\<rparr>"
  by code_simp

lemma one_line:
  "render amd64 mono10 (PointToFixed 96 11) (PointToFixed 96 13) [''LGTM''] = Inr \<lparr>Bounds = Rect 0 0 72 50\<rparr>"
  by code_simp

lemma one_line_canvas:
  "canvas (sample_world (PointToFixed 96 11) (PointToFixed 96 13) []) [] (Rect 0 0 72 50)
     = Inr \<lparr>Bounds = Rect 0 0 72 50\<rparr>"
  by code_simp

text \<open>
  Claim C8: in report mode, for every input text, the program prints exactly the bounds of
  the rendered text as \<open>\<langle>width\<rangle>x\<langle>height\<rangle>\<close>, two positive integers, on standard output,
  writes no file and does no canvas work.

  Two runs in report mode show that this fails as stated. When the text cannot be read (the
  scanner ends with an error, as it does on a line beyond its buffer), the run ends in
  \<^verbatim>\<open>log.Fatal\<close> and prints nothing on standard output. And with a font size of \<open>0\<close> and no
  lines the estimate is empty, so is the image, and the run prints \<open>0x0\<close>.
\<close>

theorem report_mode_counterexample:
  "report (sample_flags True ''LGTM'' ''tl'')
   \<and> main (sample_flags True ''LGTM'' ''tl'')
        ((sample_world (PointToFixed 96 11) (PointToFixed 96 13) []) \<lparr>Scanner := \<lambda>_. ([], Some ScanError)\<rparr>)
       = ([LogLine ScanError], 1)
   \<and> report (sample_flags True [] ''tl'')
   \<and> main (sample_flags True [] ''tl'') (sample_world (PointToFixed 96 0) (PointToFixed 96 2) [])
       = ([Stdout ''0x0''], 0)"
  by code_simp

text \<open>
  Claim C8, amended: in report mode the program writes no file and does no canvas work.
  When the font loads, the text is read and the renderer returns an image, it prints exactly
  \<open>\<langle>width\<rangle>x\<langle>height\<rangle>\<close> for the bounds of that image on standard output and ends with status
  \<open>0\<close>; the two integers are both positive, or both \<open>0\<close> when the image is empty.
  Otherwise, when the font does not load, the text is not read or the renderer returns no
  image, it prints nothing on standard output and ends with a status that is not \<open>0\<close>.
\<close>

theorem report_mode:
  assumes "report f"
  shows "(\<forall>ev \<in> set (fst (main f w)). \<not> canvas_work ev \<and> \<not> file_written ev)
    \<and> (\<forall>fontData font lines img.
          fontData_of f w = Inr fontData \<and> ParseFont w fontData = Inr font
          \<and> textToRender f w = (lines, None)
          \<and> render (can_alloc w) (ctx_DrawString (NewContext w font (allocColorImage (fgColor f))))
               (ctx_po (NewContext w font (allocColorImage (fgColor f))))
               (ctx_vs (NewContext w font (allocColorImage (fgColor f)))) lines = Inr img
          \<longrightarrow> main f w = ([Stdout (itoa (Dx (Bounds img)) @ ''x'' @ itoa (Dy (Bounds img)))], 0)
              \<and> (0 < Dx (Bounds img) \<and> 0 < Dy (Bounds img)
                   \<or> Dx (Bounds img) = 0 \<and> Dy (Bounds img) = 0))
    \<and> ((\<exists>fontData font lines img.
            fontData_of f w = Inr fontData \<and> ParseFont w fontData = Inr font
            \<and> textToRender f w = (lines, None)
            \<and> render (can_alloc w) (ctx_DrawString (NewContext w font (allocColorImage (fgColor f))))
                 (ctx_po (NewContext w font (allocColorImage (fgColor f))))
                 (ctx_vs (NewContext w font (allocColorImage (fgColor f)))) lines = Inr img)
         \<or> (snd (main f w) \<noteq> 0 \<and> (\<forall>ev \<in> set (fst (main f w)). \<not> printed ev)))"
proof (intro conjI allI impI)
  show "\<forall>ev \<in> set (fst (main f w)). \<not> canvas_work ev \<and> \<not> file_written ev"
    using finish_Nil_events(1)
    by (auto simp add: report_trace [OF assms] Let_def split: sum.splits option.splits prod.splits)
next
  fix fontData font lines img
  assume ok: "fontData_of f w = Inr fontData \<and> ParseFont w fontData = Inr font
          \<and> textToRender f w = (lines, None)
          \<and> render (can_alloc w) (ctx_DrawString (NewContext w font (allocColorImage (fgColor f))))
               (ctx_po (NewContext w font (allocColorImage (fgColor f))))
               (ctx_vs (NewContext w font (allocColorImage (fgColor f)))) lines = Inr img"
  then show "main f w = ([Stdout (itoa (Dx (Bounds img)) @ ''x'' @ itoa (Dy (Bounds img)))], 0)"
    by (simp add: report_trace [OF assms] Let_def)
  from ok show "0 < Dx (Bounds img) \<and> 0 < Dy (Bounds img) \<or> Dx (Bounds img) = 0 \<and> Dy (Bounds img) = 0"
    using render_dims by blast
next
  show "(\<exists>fontData font lines img.
            fontData_of f w = Inr fontData \<and> ParseFont w fontData = Inr font
            \<and> textToRender f w = (lines, None)
            \<and> render (can_alloc w) (ctx_DrawString (NewContext w font (allocColorImage (fgColor f))))
                 (ctx_po (NewContext w font (allocColorImage (fgColor f))))
                 (ctx_vs (NewContext w font (allocColorImage (fgColor f)))) lines = Inr img)
         \<or> (snd (main f w) \<noteq> 0 \<and> (\<forall>ev \<in> set (fst (main f w)). \<not> printed ev))"
    using assms by (rule report_failure)
qed

theorem report_mode_witness:
  "report (sample_flags True [] ''tl'')
   \<and> main (sample_flags True [] ''tl'')
        (sample_world (PointToFixed 96 11) (PointToFixed 96 13) [''one'', ''two'', ''three''])
       = ([Stdout ''82x84''], 0)
   \<and> \<not> canvas_work (Stdout ''82x84'') \<and> \<not> file_written (Stdout ''82x84'')
   \<and> textToRender (sample_flags True [] ''tl'')
        ((sample_world (PointToFixed 96 11) (PointToFixed 96 13) []) \<lparr>Scanner := \<lambda>_. ([], Some ScanError)\<rparr>)
       = ([], Some ScanError)
   \<and> snd (main (sample_flags True [] ''tl'')
        ((sample_world (PointToFixed 96 11) (PointToFixed 96 13) []) \<lparr>Scanner := \<lambda>_. ([], Some ScanError)\<rparr>))
       \<noteq> 0"
proof -
  let ?f = "sample_flags True [] ''tl''"
  let ?w = "sample_world (PointToFixed 96 11) (PointToFixed 96 13) [''one'', ''two'', ''three'']"
  let ?v = "(sample_world (PointToFixed 96 11) (PointToFixed 96 13) []) \<lparr>Scanner := \<lambda>_. ([], Some ScanError)\<rparr>"
  have r: "report ?f"
    by (simp add: sample_flags_def)
  have t: "textToRender ?f ?v = ([], Some ScanError)"
    by (simp add: textToRender_def sample_world_def)
  from report_mode [OF r, of ?v] t
  have fail: "snd (main ?f ?v) \<noteq> 0"
    by auto
  have ok: "fontData_of ?f ?w = Inr ''ttf'' \<and> ParseFont ?w ''ttf'' = Inr ()
      \<and> textToRender ?f ?w = ([''one'', ''two'', ''three''], None)
      \<and> render (can_alloc ?w) (ctx_DrawString (NewContext ?w () (allocColorImage (fgColor ?f))))
               (ctx_po (NewContext ?w () (allocColorImage (fgColor ?f))))
               (ctx_vs (NewContext ?w () (allocColorImage (fgColor ?f)))) [''one'', ''two'', ''three'']
          = Inr \<lparr>Bounds = Rect 0 0 82 84\<rparr>"
    by (simp add: fontData_of_def sample_flags_def sample_world_def textToRender_def expand_tabs_def
        three_lines)
  have d: "itoa (Dx (Rect 0 0 82 84)) @ ''x'' @ itoa (Dy (Rect 0 0 82 84)) = ''82x84''"
    by code_simp
  from report_mode [OF r, of ?w] ok
  have m: "main ?f ?w = ([Stdout (itoa (Dx (Rect 0 0 82 84)) @ ''x'' @ itoa (Dy (Rect 0 0 82 84)))], 0)"
    by (metis Image.select_convs(1))
  from report_mode [OF r, of ?w]
  have "\<forall>ev \<in> set (fst (main ?f ?w)). \<not> canvas_work ev \<and> \<not> file_written ev"
    by blast
  then show ?thesis
    using r m d t fail by simp
qed

text \<open>
  Claim C9: for every anchor that is not one of the nine, the program prints the usage text
  and ends with the usage status, without writing an image file.

  The anchor is looked at only by \<^const>\<open>textRect\<close>, which report mode never calls: in report
  mode the run with anchor \<open>zz\<close> prints the bounds and ends with status \<open>0\<close>.
\<close>

theorem invalid_anchor_counterexample:
  "''zz'' \<notin> set valid_anchors
   \<and> main (sample_flags True [] ''zz'') (sample_world (PointToFixed 96 11) (PointToFixed 96 13) [])
       = ([Stdout ''16x16''], 0)"
  by code_simp

text \<open>
  Claim C9, amended: for every anchor that is not one of the nine, the program writes no
  image file. Outside report mode it does not end with status \<open>0\<close>; and when the font
  loads, the text is read, the renderer returns an image and the canvas is there, it prints
  the usage text and ends with the usage status \<open>2\<close>. In report mode the anchor is not
  looked at: the run is the same with any other anchor.
\<close>

theorem invalid_anchor:
  assumes "anchor f \<notin> set valid_anchors"
  shows "(\<forall>ev \<in> set (fst (main f w)). \<not> file_written ev)
    \<and> (\<not> report f \<longrightarrow> snd (main f w) \<noteq> 0)
    \<and> (\<forall>fontData font lines img cimg.
          \<not> report f
          \<and> fontData_of f w = Inr fontData \<and> ParseFont w fontData = Inr font
          \<and> textToRender f w = (lines, None)
          \<and> render (can_alloc w) (ctx_DrawString (NewContext w font (allocColorImage (fgColor f))))
               (ctx_po (NewContext w font (allocColorImage (fgColor f))))
               (ctx_vs (NewContext w font (allocColorImage (fgColor f)))) lines = Inr img
          \<and> canvas w (inFile f) (Bounds img) = Inr cimg
          \<longrightarrow> fst (main f w) = (if outFile f = [] then [UsageText] else [Canvas (inFile f), UsageText])
              \<and> snd (main f w) = 2)
    \<and> (report f \<longrightarrow> main (f\<lparr>anchor := a\<rparr>) w = main f w)"
proof (intro conjI allI impI)
  show "\<forall>ev \<in> set (fst (main f w)). \<not> file_written ev"
    using assms by (rule main_bad_anchor)
  show "snd (main f w) \<noteq> 0" if "\<not> report f"
    using assms that by (rule main_bad_anchor)
next
  fix fontData font lines img cimg
  assume ok: "\<not> report f
          \<and> fontData_of f w = Inr fontData \<and> ParseFont w fontData = Inr font
          \<and> textToRender f w = (lines, None)
          \<and> render (can_alloc w) (ctx_DrawString (NewContext w font (allocColorImage (fgColor f))))
               (ctx_po (NewContext w font (allocColorImage (fgColor f))))
               (ctx_vs (NewContext w font (allocColorImage (fgColor f)))) lines = Inr img
          \<and> canvas w (inFile f) (Bounds img) = Inr cimg"
  then have m: "main f w = (if outFile f = [] then finish [] Usage else finish [Canvas (inFile f)] Usage)"
    using assms by (simp add: main_def fontData_of_def Let_def textRect_invalid)
  show "fst (main f w) = (if outFile f = [] then [UsageText] else [Canvas (inFile f), UsageText])"
    by (simp add: m)
  show "snd (main f w) = 2"
    by (simp add: m)
next
  show "main (f\<lparr>anchor := a\<rparr>) w = main f w" if "report f"
    using that by (rule report_ignores_anchor)
qed

theorem invalid_anchor_witness:
  "anchor (sample_flags False ''LGTM'' ''zz'') \<notin> set valid_anchors
   \<and> main (sample_flags False ''LGTM'' ''zz'') (sample_world (PointToFixed 96 11) (PointToFixed 96 13) [])
       = ([Canvas [], UsageText], 2)
   \<and> \<not> file_written (Canvas []) \<and> \<not> file_written UsageText
   \<and> anchor (sample_flags True ''LGTM'' ''zz'') \<notin> set valid_anchors
   \<and> report (sample_flags True ''LGTM'' ''zz'')
   \<and> main (sample_flags True ''LGTM'' ''tl'') (sample_world (PointToFixed 96 11) (PointToFixed 96 13) [])
       = main (sample_flags True ''LGTM'' ''zz'') (sample_world (PointToFixed 96 11) (PointToFixed 96 13) [])"
proof -
  let ?f = "sample_flags False ''LGTM'' ''zz''"
  let ?g = "sample_flags True ''LGTM'' ''zz''"
  let ?w = "sample_world (PointToFixed 96 11) (PointToFixed 96 13) []"
  have a: "anchor ?f \<notin> set valid_anchors"
    by (simp add: sample_flags_def valid_anchors_def)
  have b: "anchor ?g \<notin> set valid_anchors" and rg: "report ?g"
    by (simp_all add: sample_flags_def valid_anchors_def)
  have "?g\<lparr>anchor := ''tl''\<rparr> = sample_flags True ''LGTM'' ''tl''"
    by (simp add: sample_flags_def)
  with invalid_anchor [OF b, of ?w "''tl''"] rg
  have same: "main (sample_flags True ''LGTM'' ''tl'') ?w = main ?g ?w"
    by simp
  have ok: "\<not> report ?f \<and> fontData_of ?f ?w = Inr ''ttf'' \<and> ParseFont ?w ''ttf'' = Inr ()
      \<and> textToRender ?f ?w = ([''LGTM''], None)
      \<and> render (can_alloc ?w) (ctx_DrawString (NewContext ?w () (allocColorImage (fgColor ?f))))
               (ctx_po (NewContext ?w () (allocColorImage (fgColor ?f))))
               (ctx_vs (NewContext ?w () (allocColorImage (fgColor ?f)))) [''LGTM'']
          = Inr \<lparr>Bounds = Rect 0 0 72 50\<rparr>
      \<and> canvas ?w (inFile ?f) (Bounds \<lparr>Bounds = Rect 0 0 72 50\<rparr>) = Inr \<lparr>Bounds = Rect 0 0 72 50\<rparr>"
    using one_line_canvas
    by (simp add: fontData_of_def sample_flags_def sample_world_def textToRender_def expand_tabs_def
        one_line)
  from invalid_anchor [OF a, of ?w] ok
  have "fst (main ?f ?w) = (if outFile ?f = [] then [UsageText] else [Canvas (inFile ?f), UsageText])
        \<and> snd (main ?f ?w) = 2"
    by blast
  then have "main ?f ?w = ([Canvas [], UsageText], 2)"
    by (simp add: sample_flags_def prod_eq_iff)
  then show ?thesis
    using a b rg same by simp
qed

end
